theory Spec2Isabelle
  imports Complex_Main "HOL-Library.Sublist" "HOL-Library.Multiset"
begin

section \<open>The CloudAPI test double: HTTP layer (localservices/cloudapi/service_http.go)\<close>

text \<open>
  A shallow embedding of the request-routing and response-shaping layer. Go strings are
  byte strings, so \<open>string\<close> (a list of \<open>char\<close>) with \<open>length\<close> counting bytes.
  A run-time panic (a slice bound out of range, a failed type assertion) is the value
  \<open>Panic\<close> of the type \<open>outcome\<close>; a normal return is \<open>Return\<close>.
\<close>

datatype 'a outcome = Panic | Return 'a

definition and_then :: "'a outcome \<Rightarrow> ('a \<Rightarrow> 'b outcome) \<Rightarrow> 'b outcome" where
  "and_then x f = (case x of Panic \<Rightarrow> Panic | Return a \<Rightarrow> f a)"

subsection \<open>The functions of package strings that the handlers call\<close>

definition HasPrefix :: "string \<Rightarrow> string \<Rightarrow> bool" where
  "HasPrefix s pre = prefix pre s"

definition HasSuffix :: "string \<Rightarrow> string \<Rightarrow> bool" where
  "HasSuffix s suf = suffix suf s"

definition TrimPrefix :: "string \<Rightarrow> string \<Rightarrow> string" where
  "TrimPrefix s pre = (if HasPrefix s pre then drop (length pre) s else s)"

definition TrimSuffix :: "string \<Rightarrow> string \<Rightarrow> string" where
  "TrimSuffix s suf = (if HasSuffix s suf then take (length s - length suf) s else s)"

text \<open>\<open>strings.Index\<close>: the index of the first occurrence of \<open>sub\<close> in \<open>s\<close>, or \<open>-1\<close>.\<close>

fun Index :: "string \<Rightarrow> string \<Rightarrow> int" where
  "Index [] sub = (if sub = [] then 0 else - 1)"
| "Index (c # s) sub =
     (if prefix sub (c # s) then 0
      else (let i = Index s sub in if i < 0 then - 1 else i + 1))"

text \<open>
  \<open>strings.Split\<close> for a non-empty separator: the substrings between the occurrences of
  \<open>sep\<close>, read from the left; \<open>cur\<close> is the substring being collected. The empty string
  splits into one empty substring.
\<close>

function split_from :: "string \<Rightarrow> string \<Rightarrow> string \<Rightarrow> string list" where
  "split_from sep cur [] = [cur]"
| "split_from sep cur (c # s) =
     (if sep \<noteq> [] \<and> prefix sep (c # s)
      then cur # split_from sep [] (drop (length sep) (c # s))
      else split_from sep (cur @ [c]) s)"
  by pat_completeness auto
termination
  by (relation "measure (\<lambda>(sep, cur, s). length s)") (auto simp: neq_Nil_conv)

definition Split :: "string \<Rightarrow> string \<Rightarrow> string list" where
  "Split s sep = split_from sep [] s"

text \<open>
  \<open>strings.Replace(s, old, new, 1)\<close> for a non-empty \<open>old\<close>: the first occurrence of
  \<open>old\<close> is replaced.
\<close>

fun Replace1 :: "string \<Rightarrow> string \<Rightarrow> string \<Rightarrow> string" where
  "Replace1 [] old new = []"
| "Replace1 (c # s) old new =
     (if prefix old (c # s) then new @ drop (length old) (c # s)
      else c # Replace1 s old new)"

text \<open>
  The slice expressions \<open>s[:i]\<close> and \<open>s[i:]\<close> with a computed index: out of the range
  \<open>0 .. len(s)\<close> they panic.
\<close>

definition slice_to :: "string \<Rightarrow> int \<Rightarrow> string outcome" where
  "slice_to s i = (if 0 \<le> i \<and> i \<le> int (length s) then Return (take (nat i) s) else Panic)"

definition slice_from :: "string \<Rightarrow> int \<Rightarrow> string outcome" where
  "slice_from s i = (if 0 \<le> i \<and> i \<le> int (length s) then Return (drop (nat i) s) else Panic)"

subsection \<open>processFilter\<close>

text \<open>
  A Go map that may be nil is an \<open>option\<close>: \<open>None\<close> is the nil map, \<open>Some m\<close> a map
  made by \<open>make\<close>. The loop body stores \<open>filter[:i]\<close> \<open>\<mapsto>\<close> \<open>filter[i+1:]\<close> with
  \<open>i = strings.Index(filter, "=")\<close>.
\<close>

type_synonym filters = "(string \<rightharpoonup> string) option"

definition filter_entry :: "(string \<rightharpoonup> string) \<Rightarrow> string \<Rightarrow> (string \<rightharpoonup> string) outcome" where
  "filter_entry m fl =
     and_then (slice_to fl (Index fl ''=''))
       (\<lambda>k. and_then (slice_from fl (Index fl ''='' + 1))
         (\<lambda>v. Return (m(k \<mapsto> v))))"

fun filter_loop :: "(string \<rightharpoonup> string) \<Rightarrow> string list \<Rightarrow> (string \<rightharpoonup> string) outcome" where
  "filter_loop m [] = Return m"
| "filter_loop m (fl # fls) = and_then (filter_entry m fl) (\<lambda>m'. filter_loop m' fls)"

definition processFilter :: "string \<Rightarrow> filters outcome" where
  "processFilter rawQuery =
     (if rawQuery \<noteq> ''''
      then and_then (filter_loop Map.empty (Split rawQuery ''&'')) (\<lambda>m. Return (Some m))
      else Return None)"

subsection \<open>Joining and decimal numerals (strings.Join, strconv.Itoa)\<close>

fun Join :: "string list \<Rightarrow> string \<Rightarrow> string" where
  "Join [] sep = ''''"
| "Join [a] sep = a"
| "Join (a # b # rest) sep = a @ sep @ Join (b # rest) sep"

function digits :: "nat \<Rightarrow> string" where
  "digits n =
     (if n < 10 then [''0123456789'' ! n]
      else digits (n div 10) @ [''0123456789'' ! (n mod 10)])"
  by pat_completeness auto
termination
  by (relation "measure (\<lambda>n. n)") auto

declare digits.simps [simp del]

definition Itoa :: "int \<Rightarrow> string" where
  "Itoa i = (if i < 0 then CHR ''-'' # digits (nat (- i)) else digits (nat i))"

subsection \<open>ErrorResponse and errors\<close>

text \<open>
  The field \<open>headers\<close> is a Go map that may be nil: \<open>None\<close>, or the entries of the
  map in the order in which \<open>range\<close> visits them. The field \<open>cloudapi\<close> is a pointer
  to the service that no function of this file reads: it is kept as the flag whether the
  pointer is set.
\<close>

record ErrorResponse =
  Code :: int
  Body :: string
  contentType :: string
  errorText :: string
  headers :: "(string \<times> string) list option"
  cloudapi :: bool

abbreviation StatusOK :: int where "StatusOK \<equiv> 200"
abbreviation StatusCreated :: int where "StatusCreated \<equiv> 201"
abbreviation StatusAccepted :: int where "StatusAccepted \<equiv> 202"
abbreviation StatusNoContent :: int where "StatusNoContent \<equiv> 204"
abbreviation StatusBadRequest :: int where "StatusBadRequest \<equiv> 400"
abbreviation StatusNotFound :: int where "StatusNotFound \<equiv> 404"
abbreviation StatusMethodNotAllowed :: int where "StatusMethodNotAllowed \<equiv> 405"
abbreviation StatusInternalServerError :: int where "StatusInternalServerError \<equiv> 500"

definition ErrNotAllowed :: ErrorResponse where
  "ErrNotAllowed =
     \<lparr>Code = StatusMethodNotAllowed, Body = ''Method is not allowed'',
      contentType = ''text/plain; charset=UTF-8'', errorText = ''MethodNotAllowedError'',
      headers = None, cloudapi = False\<rparr>"

definition ErrNotFound :: ErrorResponse where
  "ErrNotFound =
     \<lparr>Code = StatusNotFound, Body = ''Resource Not Found'',
      contentType = ''text/plain; charset=UTF-8'', errorText = ''NotFoundError'',
      headers = None, cloudapi = False\<rparr>"

definition ErrBadRequest :: ErrorResponse where
  "ErrBadRequest =
     \<lparr>Code = StatusBadRequest, Body = ''Malformed request url'',
      contentType = ''text/plain; charset=UTF-8'', errorText = ''BadRequestError'',
      headers = None, cloudapi = False\<rparr>"

text \<open>
  A Go \<open>error\<close> is either an \<open>*ErrorResponse\<close>, which is also an \<open>http.Handler\<close>
  (\<open>Renderable\<close>), or any other error, known by the text its \<open>Error()\<close> returns
  (\<open>Plain\<close>).
\<close>

datatype go_error = Renderable ErrorResponse | Plain string

fun Error :: "go_error \<Rightarrow> string" where
  "Error (Renderable e) = errorText e"
| "Error (Plain t) = t"

subsection \<open>The response writer\<close>

text \<open>
  \<open>http.ResponseWriter\<close> is an interface; the model is the writer of the \<open>net/http\<close>
  server, as far as the handlers use it: the header map, the status code of the first
  \<open>WriteHeader\<close> (a \<open>Write\<close> before any \<open>WriteHeader\<close> implies 200), and the bytes
  of the body. \<open>Header().Set\<close> stores a value under the canonical form of the key:
  a key made of token bytes only gets an upper-case letter at its start and after every
  \<open>-\<close> and lower-case letters elsewhere, and any other key stays as it is. A \<open>Write\<close>
  under a status that allows no body (1xx, 204, 304) writes nothing. The server writes
  no body for a HEAD request either; the writer does not know the method of the request,
  and no property below is about HEAD.
\<close>

definition validHeaderFieldByte :: "char \<Rightarrow> bool" where
  "validHeaderFieldByte c =
     (let n = (of_char c :: nat) in
      (48 \<le> n \<and> n \<le> 57) \<or> (65 \<le> n \<and> n \<le> 90) \<or> (97 \<le> n \<and> n \<le> 122) \<or>
      c \<in> set (''!#$%&*+-.^_|~'' @ [CHR 0x27, CHR 0x60]))"

fun canonical :: "bool \<Rightarrow> string \<Rightarrow> string" where
  "canonical upper [] = []"
| "canonical upper (c # cs) =
     (let n = (of_char c :: nat);
          c' = (if upper \<and> 97 \<le> n \<and> n \<le> 122 then char_of (n - 32)
                else if \<not> upper \<and> 65 \<le> n \<and> n \<le> 90 then char_of (n + 32)
                else c)
      in c' # canonical (c' = CHR ''-'') cs)"

definition CanonicalHeaderKey :: "string \<Rightarrow> string" where
  "CanonicalHeaderKey s = (if list_all validHeaderFieldByte s then canonical True s else s)"

definition bodyAllowedForStatus :: "int \<Rightarrow> bool" where
  "bodyAllowedForStatus code =
     (if 100 \<le> code \<and> code \<le> 199 then False
      else if code = 204 then False
      else if code = 304 then False
      else True)"

record ResponseWriter =
  header :: "string \<rightharpoonup> string"
  status :: "int option"
  written :: string

definition fresh_writer :: ResponseWriter where
  "fresh_writer = \<lparr>header = Map.empty, status = None, written = ''''\<rparr>"

definition Header_Set :: "string \<Rightarrow> string \<Rightarrow> ResponseWriter \<Rightarrow> ResponseWriter" where
  "Header_Set k v w = w\<lparr>header := (header w)(CanonicalHeaderKey k \<mapsto> v)\<rparr>"

definition WriteHeader :: "int \<Rightarrow> ResponseWriter \<Rightarrow> ResponseWriter" where
  "WriteHeader code w = (case status w of None \<Rightarrow> w\<lparr>status := Some code\<rparr> | Some _ \<Rightarrow> w)"

definition Write :: "string \<Rightarrow> ResponseWriter \<Rightarrow> ResponseWriter" where
  "Write data w =
     (let w' = WriteHeader StatusOK w in
      if data = '''' then w'
      else if \<not> bodyAllowedForStatus (case status w' of Some code \<Rightarrow> code | None \<Rightarrow> StatusOK) then w'
      else w'\<lparr>written := written w' @ data\<rparr>)"

definition ErrorResponse_ServeHTTP :: "ErrorResponse \<Rightarrow> ResponseWriter \<Rightarrow> ResponseWriter" where
  "ErrorResponse_ServeHTTP e w =
     (let w1 = (if contentType e \<noteq> '''' then Header_Set ''Content-Type'' (contentType e) w else w);
          body = Body e;
          w2 = (case headers e of None \<Rightarrow> w1
                | Some hs \<Rightarrow> fold (\<lambda>(h, v). Header_Set h v) hs w1);
          w3 = Header_Set ''Content-Length'' (Itoa (int (length body))) w2;
          w4 = (if Code e \<noteq> 0 then WriteHeader (Code e) w3 else w3)
      in if length body > 0 then Write body w4 else w4)"

definition writeResponse :: "ResponseWriter \<Rightarrow> int \<Rightarrow> string \<Rightarrow> ResponseWriter" where
  "writeResponse w code body =
     Write body (WriteHeader code (Header_Set ''Content-Length'' (Itoa (int (length body))) w))"

subsection \<open>What the handlers use from outside this file\<close>

text \<open>
  The resource structs (\<open>cloudapi.Key\<close>, \<open>Image\<close>, \<open>Package\<close>, \<open>Machine\<close>,
  \<open>FirewallRule\<close>, \<open>Network\<close>) and the option structs are declared in another package;
  the handlers only pass resources on. Resource values are of the type parameter \<open>'r\<close>.
  The value handed to \<open>json.Marshal\<close> is one of: the nil interface, an int, a slice of
  structs, a slice of pointers, a pointer; a nil slice and a nil pointer are \<open>None\<close>.
\<close>

datatype 'r go_value =
    NilValue
  | IntValue int
  | Slice "'r list option"
  | PtrSlice "'r option list option"
  | Ptr "'r option"

text \<open>A value decoded by \<open>encoding/json\<close> into \<open>interface{}\<close>; \<open>JNil\<close> is JSON null.\<close>

datatype json_value =
    JNil
  | JBool bool
  | JNumber rat
  | JString string
  | JArray "json_value list"
  | JObject "(string \<times> json_value) list"

text \<open>The option structs, with the fields that the handlers read.\<close>

record CreateKeyOpts =
  Name :: string
  Key :: string

record CreateFwRuleOpts =
  Enabled :: bool
  Rule :: string

text \<open>
  \<open>zero_*\<close>: the struct literals \<open>cloudapi.Key{}\<close> and so on. \<open>struct_members\<close>: what
  \<open>json.Marshal\<close> writes between the braces for a resource struct, or its error.
  \<open>Unmarshal_*\<close>: \<open>json.Unmarshal\<close> of a body into a zero option struct, or into an empty
  \<open>map[string]interface{}\<close>; the decoded map is the list of its entries in the order in
  which \<open>range\<close> visits them. \<open>Quote\<close>: the double-quoted Go string literal that the
  verb \<open>%q\<close> of package \<open>fmt\<close> writes for a string.
\<close>

record 'r extern =
  zero_Key :: 'r
  zero_Image :: 'r
  zero_Package :: 'r
  zero_Machine :: 'r
  zero_FirewallRule :: 'r
  zero_Network :: 'r
  struct_members :: "'r \<Rightarrow> go_error + string"
  Unmarshal_CreateKeyOpts :: "string \<Rightarrow> go_error + CreateKeyOpts"
  Unmarshal_CreateFwRuleOpts :: "string \<Rightarrow> go_error + CreateFwRuleOpts"
  Unmarshal_map :: "string \<Rightarrow> go_error + (string \<times> json_value) list"
  Quote :: "string \<Rightarrow> string"

text \<open>
  The service \<open>CloudAPI\<close> with its in-memory store is defined in another file. Its
  operations are parameters: each takes the store \<open>'s\<close> and returns its result, or its
  error, with the store after the call.
\<close>

record ('r, 's) CloudAPI =
  UserAccount :: string
  ListKeys :: "'s \<Rightarrow> (go_error + 'r list option) \<times> 's"
  GetKey :: "string \<Rightarrow> 's \<Rightarrow> (go_error + 'r option) \<times> 's"
  CreateKey :: "string \<Rightarrow> string \<Rightarrow> 's \<Rightarrow> (go_error + 'r option) \<times> 's"
  DeleteKey :: "string \<Rightarrow> 's \<Rightarrow> go_error option \<times> 's"
  ListImages :: "filters \<Rightarrow> 's \<Rightarrow> (go_error + 'r list option) \<times> 's"
  GetImage :: "string \<Rightarrow> 's \<Rightarrow> (go_error + 'r option) \<times> 's"
  ListPackages :: "filters \<Rightarrow> 's \<Rightarrow> (go_error + 'r list option) \<times> 's"
  GetPackage :: "string \<Rightarrow> 's \<Rightarrow> (go_error + 'r option) \<times> 's"
  ListMachines :: "filters \<Rightarrow> 's \<Rightarrow> (go_error + 'r option list option) \<times> 's"
  ListMachineFirewallRules :: "string \<Rightarrow> 's \<Rightarrow> (go_error + 'r option list option) \<times> 's"
  GetMachine :: "string \<Rightarrow> 's \<Rightarrow> (go_error + 'r option) \<times> 's"
  CountMachines :: "'s \<Rightarrow> (go_error + int) \<times> 's"
  CreateMachine :: "string \<Rightarrow> string \<Rightarrow> string \<Rightarrow> string list option \<Rightarrow>
    (string \<rightharpoonup> string) \<Rightarrow> (string \<rightharpoonup> string) \<Rightarrow> 's \<Rightarrow> (go_error + 'r option) \<times> 's"
  StopMachine :: "string \<Rightarrow> 's \<Rightarrow> go_error option \<times> 's"
  StartMachine :: "string \<Rightarrow> 's \<Rightarrow> go_error option \<times> 's"
  RebootMachine :: "string \<Rightarrow> 's \<Rightarrow> go_error option \<times> 's"
  ResizeMachine :: "string \<Rightarrow> string \<Rightarrow> 's \<Rightarrow> go_error option \<times> 's"
  RenameMachine :: "string \<Rightarrow> string \<Rightarrow> 's \<Rightarrow> go_error option \<times> 's"
  EnableFirewallMachine :: "string \<Rightarrow> 's \<Rightarrow> go_error option \<times> 's"
  DisableFirewallMachine :: "string \<Rightarrow> 's \<Rightarrow> go_error option \<times> 's"
  DeleteMachine :: "string \<Rightarrow> 's \<Rightarrow> go_error option \<times> 's"
  ListFirewallRules :: "'s \<Rightarrow> (go_error + 'r option list option) \<times> 's"
  GetFirewallRule :: "string \<Rightarrow> 's \<Rightarrow> (go_error + 'r option) \<times> 's"
  CreateFirewallRule :: "string \<Rightarrow> bool \<Rightarrow> 's \<Rightarrow> (go_error + 'r option) \<times> 's"
  EnableFirewallRule :: "string \<Rightarrow> 's \<Rightarrow> (go_error + 'r option) \<times> 's"
  DisableFirewallRule :: "string \<Rightarrow> 's \<Rightarrow> (go_error + 'r option) \<times> 's"
  UpdateFirewallRule :: "string \<Rightarrow> string \<Rightarrow> bool \<Rightarrow> 's \<Rightarrow> (go_error + 'r option) \<times> 's"
  DeleteFirewallRule :: "string \<Rightarrow> 's \<Rightarrow> go_error option \<times> 's"
  ListNetworks :: "'s \<Rightarrow> (go_error + 'r list option) \<times> 's"
  GetNetwork :: "string \<Rightarrow> 's \<Rightarrow> (go_error + 'r option) \<times> 's"

text \<open>
  The request: \<open>Path\<close> is \<open>r.URL.Path\<close>, \<open>RawQuery\<close> is \<open>r.URL.RawQuery\<close>,
  \<open>Query_Get k\<close> is \<open>r.URL.Query().Get(k)\<close> (the empty string when \<open>k\<close> is absent), and
  \<open>ReadAll_Body\<close> is the result of \<open>ioutil.ReadAll(r.Body)\<close>.
\<close>

record Request =
  Method :: string
  Path :: string
  RawQuery :: string
  Query_Get :: "string \<Rightarrow> string"
  ReadAll_Body :: "go_error + string"

subsection \<open>json.Marshal and sendJSON\<close>

definition struct_json :: "'r extern \<Rightarrow> 'r \<Rightarrow> go_error + string" where
  "struct_json X x =
     (case struct_members X x of Inl err \<Rightarrow> Inl err | Inr ms \<Rightarrow> Inr (''{'' @ ms @ ''}''))"

definition ptr_json :: "'r extern \<Rightarrow> 'r option \<Rightarrow> go_error + string" where
  "ptr_json X p = (case p of None \<Rightarrow> Inr ''null'' | Some x \<Rightarrow> struct_json X x)"

fun elements_json :: "(go_error + string) list \<Rightarrow> go_error + string list" where
  "elements_json [] = Inr []"
| "elements_json (Inl err # es) = Inl err"
| "elements_json (Inr a # es) =
     (case elements_json es of Inl err \<Rightarrow> Inl err | Inr as \<Rightarrow> Inr (a # as))"

definition array_json :: "(go_error + string) list \<Rightarrow> go_error + string" where
  "array_json es =
     (case elements_json es of Inl err \<Rightarrow> Inl err
      | Inr as \<Rightarrow> Inr (''['' @ Join as '','' @ '']''))"

fun json_Marshal :: "'r extern \<Rightarrow> 'r go_value \<Rightarrow> go_error + string" where
  "json_Marshal X NilValue = Inr ''null''"
| "json_Marshal X (IntValue i) = Inr (Itoa i)"
| "json_Marshal X (Slice None) = Inr ''null''"
| "json_Marshal X (Slice (Some xs)) = array_json (map (struct_json X) xs)"
| "json_Marshal X (PtrSlice None) = Inr ''null''"
| "json_Marshal X (PtrSlice (Some ps)) = array_json (map (ptr_json X) ps)"
| "json_Marshal X (Ptr p) = ptr_json X p"

definition sendJSON ::
  "'r extern \<Rightarrow> int \<Rightarrow> 'r go_value \<Rightarrow> ResponseWriter \<Rightarrow> go_error option \<times> ResponseWriter" where
  "sendJSON X code resp w =
     (case json_Marshal X resp of
        Inl err \<Rightarrow> (Some err, w)
      | Inr data \<Rightarrow> (None, writeResponse w code data))"

subsection \<open>Handler results\<close>

text \<open>
  A handler method returns its error (\<open>None\<close> is the nil error) with the writer and the
  store as it leaves them, or panics. \<open>call\<close> and \<open>run\<close> are the Go idiom
  \<open>x, err := op(); if err != nil { return err }\<close>; \<open>sends\<close> is \<open>return sendJSON(...)\<close>.
\<close>

type_synonym 's result = "(go_error option \<times> ResponseWriter \<times> 's) outcome"

definition fails :: "go_error \<Rightarrow> ResponseWriter \<Rightarrow> 's \<Rightarrow> 's result" where
  "fails err w s = Return (Some err, w, s)"

definition sends :: "go_error option \<times> ResponseWriter \<Rightarrow> 's \<Rightarrow> 's result" where
  "sends ew s = Return (fst ew, snd ew, s)"

definition call ::
  "('s \<Rightarrow> (go_error + 'a) \<times> 's) \<Rightarrow> ResponseWriter \<Rightarrow> 's \<Rightarrow> ('a \<Rightarrow> 's \<Rightarrow> 's result) \<Rightarrow> 's result" where
  "call op w s k = (case op s of (Inl err, s') \<Rightarrow> fails err w s' | (Inr x, s') \<Rightarrow> k x s')"

definition run ::
  "('s \<Rightarrow> go_error option \<times> 's) \<Rightarrow> ResponseWriter \<Rightarrow> 's \<Rightarrow> ('s \<Rightarrow> 's result) \<Rightarrow> 's result" where
  "run op w s k = (case op s of (Some err, s') \<Rightarrow> fails err w s' | (None, s') \<Rightarrow> k s')"

text \<open>\<open>if xs == nil { xs = []T{} }\<close> and \<open>if p == nil { p = &T{} }\<close>.\<close>

definition non_nil_slice :: "'a list option \<Rightarrow> 'a list" where
  "non_nil_slice xs = (case xs of None \<Rightarrow> [] | Some ys \<Rightarrow> ys)"

definition non_nil_ptr :: "'a \<Rightarrow> 'a option \<Rightarrow> 'a" where
  "non_nil_ptr z p = (case p of None \<Rightarrow> z | Some x \<Rightarrow> x)"

text \<open>\<open>fmt.Errorf("unknown request method %q for %s", r.Method, r.URL.Path)\<close>.\<close>

definition unknown_method :: "'r extern \<Rightarrow> Request \<Rightarrow> go_error" where
  "unknown_method X r =
     Plain (''unknown request method '' @ Quote X (Method r) @ '' for '' @ Path r)"

subsection \<open>handleKeys\<close>

definition key_opts :: "'r extern \<Rightarrow> string \<Rightarrow> go_error + string \<times> string" where
  "key_opts X body =
     (if length body > 0
      then (case Unmarshal_CreateKeyOpts X body of
              Inl errJ \<Rightarrow> Inl errJ
            | Inr opts \<Rightarrow> Inr (Name opts, Key opts))
      else Inr ('''', ''''))"

definition handleKeys ::
  "'r extern \<Rightarrow> ('r, 's) CloudAPI \<Rightarrow> ResponseWriter \<Rightarrow> Request \<Rightarrow> 's \<Rightarrow> 's result" where
  "handleKeys X c w r s =
     (let pre = ''/'' @ UserAccount c @ ''/keys/'';
          keyName = TrimPrefix (Path r) pre
      in
      if Method r = ''GET'' then
        (if HasSuffix (Path r) ''keys'' then
           call (ListKeys c) w s (\<lambda>keys s'.
             sends (sendJSON X StatusOK (Slice (Some (non_nil_slice keys))) w) s')
         else
           call (GetKey c keyName) w s (\<lambda>key s'.
             sends (sendJSON X StatusOK (Ptr (Some (non_nil_ptr (zero_Key X) key))) w) s'))
      else if Method r = ''POST'' then
        (if HasSuffix (Path r) ''keys'' then
           (case ReadAll_Body r of
              Inl errB \<Rightarrow> fails errB w s
            | Inr body \<Rightarrow>
                (case key_opts X body of
                   Inl errJ \<Rightarrow> fails errJ w s
                 | Inr (name, key) \<Rightarrow>
                     call (CreateKey c name key) w s (\<lambda>k s'.
                       sends (sendJSON X StatusCreated (Ptr (Some (non_nil_ptr (zero_Key X) k))) w) s')))
         else fails (Renderable ErrNotAllowed) w s)
      else if Method r = ''PUT'' then fails (Renderable ErrNotAllowed) w s
      else if Method r = ''DELETE'' then
        (if HasSuffix (Path r) ''keys'' then fails (Renderable ErrNotAllowed) w s
         else
           run (DeleteKey c keyName) w s (\<lambda>s'.
             sends (sendJSON X StatusNoContent NilValue w) s'))
      else fails (unknown_method X r) w s)"

subsection \<open>handleImages\<close>

definition handleImages ::
  "'r extern \<Rightarrow> ('r, 's) CloudAPI \<Rightarrow> ResponseWriter \<Rightarrow> Request \<Rightarrow> 's \<Rightarrow> 's result" where
  "handleImages X c w r s =
     (let pre = ''/'' @ UserAccount c @ ''/images/'';
          imageID = TrimPrefix (Path r) pre
      in
      if Method r = ''GET'' then
        (if HasSuffix (Path r) ''images'' then
           and_then (processFilter (RawQuery r)) (\<lambda>fs.
             call (ListImages c fs) w s (\<lambda>images s'.
               sends (sendJSON X StatusOK (Slice (Some (non_nil_slice images))) w) s'))
         else
           call (GetImage c imageID) w s (\<lambda>image s'.
             sends (sendJSON X StatusOK (Ptr (Some (non_nil_ptr (zero_Image X) image))) w) s'))
      else if Method r = ''POST'' then
        (if HasSuffix (Path r) ''images'' then fails (Renderable ErrNotFound) w s
         else fails (Renderable ErrNotAllowed) w s)
      else if Method r = ''PUT'' then fails (Renderable ErrNotAllowed) w s
      else if Method r = ''DELETE'' then fails (Renderable ErrNotAllowed) w s
      else fails (unknown_method X r) w s)"

subsection \<open>handlePackages\<close>

definition handlePackages ::
  "'r extern \<Rightarrow> ('r, 's) CloudAPI \<Rightarrow> ResponseWriter \<Rightarrow> Request \<Rightarrow> 's \<Rightarrow> 's result" where
  "handlePackages X c w r s =
     (let pre = ''/'' @ UserAccount c @ ''/packages/'';
          pkgName = TrimPrefix (Path r) pre
      in
      if Method r = ''GET'' then
        (if HasSuffix (Path r) ''packages'' then
           and_then (processFilter (RawQuery r)) (\<lambda>fs.
             call (ListPackages c fs) w s (\<lambda>pkgs s'.
               sends (sendJSON X StatusOK (Slice (Some (non_nil_slice pkgs))) w) s'))
         else
           call (GetPackage c pkgName) w s (\<lambda>pkg s'.
             sends (sendJSON X StatusOK (Ptr (Some (non_nil_ptr (zero_Package X) pkg))) w) s'))
      else if Method r = ''POST'' then fails (Renderable ErrNotAllowed) w s
      else if Method r = ''PUT'' then fails (Renderable ErrNotAllowed) w s
      else if Method r = ''DELETE'' then fails (Renderable ErrNotAllowed) w s
      else fails (unknown_method X r) w s)"

subsection \<open>handleMachines\<close>

text \<open>
  The variables that the create branch fills from the decoded body: \<open>networks\<close> starts as
  the nil slice, \<open>metadata\<close> and \<open>tags\<close> as empty maps. The type assertions \<open>v.(string)\<close>
  and \<open>v.([]interface{})\<close> have no second result, so they panic on another type, and
  \<open>n.(string)\<close> panics on a nil element too.
\<close>

record machine_vars =
  m_name :: string
  m_pkg :: string
  m_image :: string
  m_networks :: "string list option"
  m_metadata :: "string \<rightharpoonup> string"
  m_tags :: "string \<rightharpoonup> string"

definition no_vars :: machine_vars where
  "no_vars =
     \<lparr>m_name = '''', m_pkg = '''', m_image = '''', m_networks = None,
      m_metadata = Map.empty, m_tags = Map.empty\<rparr>"

definition as_string :: "json_value \<Rightarrow> string outcome" where
  "as_string v = (case v of JString t \<Rightarrow> Return t | _ \<Rightarrow> Panic)"

definition as_array :: "json_value \<Rightarrow> json_value list outcome" where
  "as_array v = (case v of JArray vs \<Rightarrow> Return vs | _ \<Rightarrow> Panic)"

fun append_strings :: "string list \<Rightarrow> json_value list \<Rightarrow> string list outcome" where
  "append_strings networks [] = Return networks"
| "append_strings networks (n # ns) =
     and_then (as_string n) (\<lambda>t. append_strings (networks @ [t]) ns)"

definition machine_field :: "machine_vars \<Rightarrow> string \<times> json_value \<Rightarrow> machine_vars outcome" where
  "machine_field vars kv =
     (let k = fst kv; v = snd kv in
      if v = JNil then Return vars
      else if k = ''name'' then and_then (as_string v) (\<lambda>t. Return (vars\<lparr>m_name := t\<rparr>))
      else if k = ''package'' then and_then (as_string v) (\<lambda>t. Return (vars\<lparr>m_pkg := t\<rparr>))
      else if k = ''image'' then and_then (as_string v) (\<lambda>t. Return (vars\<lparr>m_image := t\<rparr>))
      else if k = ''networks'' then
        and_then (as_array v) (\<lambda>vs.
          and_then (append_strings [] vs) (\<lambda>ns. Return (vars\<lparr>m_networks := Some ns\<rparr>)))
      else if HasPrefix k ''tag.'' then
        and_then (as_string v) (\<lambda>t. Return (vars\<lparr>m_tags := (m_tags vars)(drop 4 k \<mapsto> t)\<rparr>))
      else if HasPrefix k ''metadata.'' then
        and_then (as_string v) (\<lambda>t. Return (vars\<lparr>m_metadata := (m_metadata vars)(drop 9 k \<mapsto> t)\<rparr>))
      else Return vars)"

fun machine_fields :: "machine_vars \<Rightarrow> (string \<times> json_value) list \<Rightarrow> machine_vars outcome" where
  "machine_fields vars [] = Return vars"
| "machine_fields vars (kv # opts) =
     and_then (machine_field vars kv) (\<lambda>vars'. machine_fields vars' opts)"

text \<open>
  Decoding the body and the loop over its entries. The source also prints a decoding
  error on the standard output before returning it; the output is not part of the model.
\<close>

definition machine_opts :: "'r extern \<Rightarrow> string \<Rightarrow> (go_error + machine_vars) outcome" where
  "machine_opts X body =
     (if length body > 0
      then (case Unmarshal_map X body of
              Inl errJ \<Rightarrow> Return (Inl errJ)
            | Inr opts \<Rightarrow> and_then (machine_fields no_vars opts) (\<lambda>vars. Return (Inr vars)))
      else Return (Inr no_vars))"

text \<open>
  The seven action branches share their shape: call the store operation, return its
  error if there is one, else \<open>sendJSON(http.StatusAccepted, nil, w, r)\<close>.
\<close>

definition accepted ::
  "'r extern \<Rightarrow> ('s \<Rightarrow> go_error option \<times> 's) \<Rightarrow> ResponseWriter \<Rightarrow> 's \<Rightarrow> 's result" where
  "accepted X op w s = run op w s (\<lambda>s'. sends (sendJSON X StatusAccepted NilValue w) s')"

definition handleMachines ::
  "'r extern \<Rightarrow> ('r, 's) CloudAPI \<Rightarrow> ResponseWriter \<Rightarrow> Request \<Rightarrow> 's \<Rightarrow> 's result" where
  "handleMachines X c w r s =
     (let pre = ''/'' @ UserAccount c @ ''/machines/'';
          machineID = TrimPrefix (Path r) pre
      in
      if Method r = ''GET'' then
        (if HasSuffix (Path r) ''machines'' then
           and_then (processFilter (RawQuery r)) (\<lambda>fs.
             call (ListMachines c fs) w s (\<lambda>machines s'.
               sends (sendJSON X StatusOK (PtrSlice (Some (non_nil_slice machines))) w) s'))
         else if HasSuffix (Path r) ''fwrules'' then
           call (ListMachineFirewallRules c (TrimSuffix machineID ''/fwrules'')) w s (\<lambda>fwRules s'.
             sends (sendJSON X StatusOK (PtrSlice (Some (non_nil_slice fwRules))) w) s')
         else
           call (GetMachine c machineID) w s (\<lambda>machine s'.
             sends (sendJSON X StatusOK (Ptr (Some (non_nil_ptr (zero_Machine X) machine))) w) s'))
      else if Method r = ''HEAD'' then
        (if HasSuffix (Path r) ''machines'' then
           call (CountMachines c) w s (\<lambda>count s'.
             sends (sendJSON X StatusOK (IntValue count) w) s')
         else fails (Renderable ErrNotAllowed) w s)
      else if Method r = ''POST'' then
        (if HasSuffix (Path r) ''machines'' then
           (case ReadAll_Body r of
              Inl errB \<Rightarrow> fails errB w s
            | Inr body \<Rightarrow>
                and_then (machine_opts X body) (\<lambda>decoded.
                  case decoded of
                    Inl errJ \<Rightarrow> fails errJ w s
                  | Inr vars \<Rightarrow>
                      call (CreateMachine c (m_name vars) (m_pkg vars) (m_image vars)
                              (m_networks vars) (m_metadata vars) (m_tags vars)) w s
                        (\<lambda>machine s'.
                          sends (sendJSON X StatusCreated
                                   (Ptr (Some (non_nil_ptr (zero_Machine X) machine))) w) s')))
         else if Query_Get r ''action'' = ''stop'' then
           accepted X (StopMachine c machineID) w s
         else if Query_Get r ''action'' = ''start'' then
           accepted X (StartMachine c machineID) w s
         else if Query_Get r ''action'' = ''reboot'' then
           accepted X (RebootMachine c machineID) w s
         else if Query_Get r ''action'' = ''resize'' then
           accepted X (ResizeMachine c machineID (Query_Get r ''package'')) w s
         else if Query_Get r ''action'' = ''rename'' then
           accepted X (RenameMachine c machineID (Query_Get r ''name'')) w s
         else if Query_Get r ''action'' = ''enable_firewall'' then
           accepted X (EnableFirewallMachine c machineID) w s
         else if Query_Get r ''action'' = ''disable_firewall'' then
           accepted X (DisableFirewallMachine c machineID) w s
         else fails (Renderable ErrNotAllowed) w s)
      else if Method r = ''PUT'' then fails (Renderable ErrNotAllowed) w s
      else if Method r = ''DELETE'' then
        (if HasSuffix (Path r) ''machines'' then fails (Renderable ErrNotAllowed) w s
         else
           run (DeleteMachine c machineID) w s (\<lambda>s'.
             sends (sendJSON X StatusNoContent NilValue w) s'))
      else fails (unknown_method X r) w s)"

subsection \<open>handleFwRules\<close>

definition fwrule_opts :: "'r extern \<Rightarrow> string \<Rightarrow> go_error + string \<times> bool" where
  "fwrule_opts X body =
     (if length body > 0
      then (case Unmarshal_CreateFwRuleOpts X body of
              Inl errJ \<Rightarrow> Inl errJ
            | Inr opts \<Rightarrow> Inr (Rule opts, Enabled opts))
      else Inr ('''', False))"

definition handleFwRules ::
  "'r extern \<Rightarrow> ('r, 's) CloudAPI \<Rightarrow> ResponseWriter \<Rightarrow> Request \<Rightarrow> 's \<Rightarrow> 's result" where
  "handleFwRules X c w r s =
     (let pre = ''/'' @ UserAccount c @ ''/fwrules/'';
          fwRuleID = TrimPrefix (Path r) pre;
          ok = (\<lambda>fwRule s'.
             sends (sendJSON X StatusOK (Ptr (Some (non_nil_ptr (zero_FirewallRule X) fwRule))) w) s')
      in
      if Method r = ''GET'' then
        (if HasSuffix (Path r) ''fwrules'' then
           call (ListFirewallRules c) w s (\<lambda>fwRules s'.
             sends (sendJSON X StatusOK (PtrSlice (Some (non_nil_slice fwRules))) w) s')
         else call (GetFirewallRule c fwRuleID) w s ok)
      else if Method r = ''POST'' then
        (if HasSuffix (Path r) ''fwrules'' then
           (case ReadAll_Body r of
              Inl errB \<Rightarrow> fails errB w s
            | Inr body \<Rightarrow>
                (case fwrule_opts X body of
                   Inl errJ \<Rightarrow> fails errJ w s
                 | Inr (rule, enabled) \<Rightarrow>
                     call (CreateFirewallRule c rule enabled) w s (\<lambda>fwRule s'.
                       sends (sendJSON X StatusCreated
                                (Ptr (Some (non_nil_ptr (zero_FirewallRule X) fwRule))) w) s')))
         else if HasSuffix (Path r) ''enable'' then
           call (EnableFirewallRule c (TrimSuffix fwRuleID ''/enable'')) w s ok
         else if HasSuffix (Path r) ''disable'' then
           call (DisableFirewallRule c (TrimSuffix fwRuleID ''/disable'')) w s ok
         else
           (case ReadAll_Body r of
              Inl errB \<Rightarrow> fails errB w s
            | Inr body \<Rightarrow>
                (case fwrule_opts X body of
                   Inl errJ \<Rightarrow> fails errJ w s
                 | Inr (rule, enabled) \<Rightarrow>
                     call (UpdateFirewallRule c fwRuleID rule enabled) w s ok)))
      else if Method r = ''PUT'' then fails (Renderable ErrNotAllowed) w s
      else if Method r = ''DELETE'' then
        (if HasSuffix (Path r) ''fwrules'' then fails (Renderable ErrNotAllowed) w s
         else
           run (DeleteFirewallRule c fwRuleID) w s (\<lambda>s'.
             sends (sendJSON X StatusNoContent NilValue w) s'))
      else fails (unknown_method X r) w s)"

subsection \<open>handleNetworks\<close>

definition handleNetworks ::
  "'r extern \<Rightarrow> ('r, 's) CloudAPI \<Rightarrow> ResponseWriter \<Rightarrow> Request \<Rightarrow> 's \<Rightarrow> 's result" where
  "handleNetworks X c w r s =
     (let pre = ''/'' @ UserAccount c @ ''/networks/'';
          networkID = TrimPrefix (Path r) pre
      in
      if Method r = ''GET'' then
        (if HasSuffix (Path r) ''networks'' then
           call (ListNetworks c) w s (\<lambda>networks s'.
             sends (sendJSON X StatusOK (Slice (Some (non_nil_slice networks))) w) s')
         else
           call (GetNetwork c networkID) w s (\<lambda>network s'.
             sends (sendJSON X StatusOK (Ptr (Some (non_nil_ptr (zero_Network X) network))) w) s'))
      else if Method r = ''POST'' then fails (Renderable ErrNotAllowed) w s
      else if Method r = ''PUT'' then fails (Renderable ErrNotAllowed) w s
      else if Method r = ''DELETE'' then fails (Renderable ErrNotAllowed) w s
      else fails (unknown_method X r) w s)"

subsection \<open>cloudapiHandler\<close>

record ('r, 's) cloudapiHandler =
  h_cloudapi :: "('r, 's) CloudAPI"
  h_method :: "('r, 's) CloudAPI \<Rightarrow> ResponseWriter \<Rightarrow> Request \<Rightarrow> 's \<Rightarrow> 's result"

text \<open>
  \<open>resp, _ = err.(http.Handler)\<close> and the replacement of a nil \<open>resp\<close> by the
  internal-error response; the body is the string literal of the source.
\<close>

definition as_Handler :: "go_error \<Rightarrow> ErrorResponse option" where
  "as_Handler err = (case err of Renderable e \<Rightarrow> Some e | Plain _ \<Rightarrow> None)"

definition internal_error_body :: string where
  "internal_error_body =
     ''{'' @ [CHR 0x22] @ ''internalServerError'' @ [CHR 0x22] @ '':{'' @ [CHR 0x22] @
     ''message'' @ [CHR 0x22] @ '':'' @ [CHR 0x22] @ ''Unkown Error'' @ [CHR 0x22] @
     '',code:500}}''"

definition internal_error :: "go_error \<Rightarrow> ErrorResponse" where
  "internal_error err =
     \<lparr>Code = StatusInternalServerError, Body = internal_error_body,
      contentType = ''application/json'', errorText = Error err,
      headers = None, cloudapi = True\<rparr>"

definition resp_of :: "go_error \<Rightarrow> ErrorResponse" where
  "resp_of err = (case as_Handler err of None \<Rightarrow> internal_error err | Some e \<Rightarrow> e)"

definition cloudapiHandler_ServeHTTP ::
  "('r, 's) cloudapiHandler \<Rightarrow> ResponseWriter \<Rightarrow> Request \<Rightarrow> 's \<Rightarrow> (ResponseWriter \<times> 's) outcome" where
  "cloudapiHandler_ServeHTTP h w r s =
     (let path = Path r in
      if HasSuffix path ''/'' \<and> path \<noteq> ''/'' then Return (ErrorResponse_ServeHTTP ErrNotFound w, s)
      else
        and_then (h_method h (h_cloudapi h) w r s) (\<lambda>(err, w', s').
          case err of
            None \<Rightarrow> Return (w', s')
          | Some e \<Rightarrow> Return (ErrorResponse_ServeHTTP (resp_of e) w', s')))"

definition handler :: "('r, 's) CloudAPI \<Rightarrow>
    (('r, 's) CloudAPI \<Rightarrow> ResponseWriter \<Rightarrow> Request \<Rightarrow> 's \<Rightarrow> 's result) \<Rightarrow> ('r, 's) cloudapiHandler" where
  "handler c method = \<lparr>h_cloudapi = c, h_method = method\<rparr>"

subsection \<open>SetupHTTP\<close>

text \<open>
  An \<open>http.Handler\<close> of the route table is an \<open>*ErrorResponse\<close> or a
  \<open>*cloudapiHandler\<close>. The \<open>http.ServeMux\<close> is the list of its registrations, the latest
  last; \<open>Handle\<close> panics on an empty pattern and on a pattern registered before.
\<close>

datatype ('r, 's) Handler =
    ErrorHandler ErrorResponse
  | MethodHandler "('r, 's) cloudapiHandler"

definition Handler_ServeHTTP ::
  "('r, 's) Handler \<Rightarrow> ResponseWriter \<Rightarrow> Request \<Rightarrow> 's \<Rightarrow> (ResponseWriter \<times> 's) outcome" where
  "Handler_ServeHTTP hnd w r s =
     (case hnd of
        ErrorHandler e \<Rightarrow> Return (ErrorResponse_ServeHTTP e w, s)
      | MethodHandler h \<Rightarrow> cloudapiHandler_ServeHTTP h w r s)"

type_synonym ('r, 's) ServeMux = "(string \<times> ('r, 's) Handler) list"

definition Handle ::
  "('r, 's) ServeMux \<Rightarrow> string \<Rightarrow> ('r, 's) Handler \<Rightarrow> ('r, 's) ServeMux outcome" where
  "Handle mux pattern h =
     (if pattern = '''' \<or> pattern \<in> fst ` set mux then Panic else Return (mux @ [(pattern, h)]))"

text \<open>The map literal \<open>handlers\<close> of \<open>SetupHTTP\<close>, in the order of the source.\<close>

definition handlers :: "'r extern \<Rightarrow> ('r, 's) CloudAPI \<Rightarrow> (string \<times> ('r, 's) Handler) list" where
  "handlers X c =
     [(''/'', ErrorHandler ErrNotFound),
      (''/$user/'', ErrorHandler ErrBadRequest),
      (''/$user/keys'', MethodHandler (handler c (handleKeys X))),
      (''/$user/images'', MethodHandler (handler c (handleImages X))),
      (''/$user/packages'', MethodHandler (handler c (handlePackages X))),
      (''/$user/machines'', MethodHandler (handler c (handleMachines X))),
      (''/$user/fwrules'', MethodHandler (handler c (handleFwRules X))),
      (''/$user/networks'', MethodHandler (handler c (handleNetworks X)))]"

text \<open>
  The body of the loop \<open>for path, h := range handlers\<close>, and the loop itself. Go
  leaves open the order in which \<open>range\<close> visits the entries of a map, so
  \<open>SetupHTTP\<close> takes it as the argument \<open>visit\<close>: the positions of the eight
  entries of \<open>handlers\<close> in the order in which the loop reaches them.
\<close>

definition register ::
  "('r, 's) CloudAPI \<Rightarrow> ('r, 's) ServeMux \<Rightarrow> string \<times> ('r, 's) Handler \<Rightarrow> ('r, 's) ServeMux outcome" where
  "register c mux entry =
     (let path = Replace1 (fst entry) ''$user'' (UserAccount c); h = snd entry in
      and_then (if \<not> HasSuffix path ''/'' then Handle mux (path @ ''/'') h else Return mux)
        (\<lambda>mux'. Handle mux' path h))"

fun register_all ::
  "('r, 's) CloudAPI \<Rightarrow> ('r, 's) ServeMux \<Rightarrow> (string \<times> ('r, 's) Handler) list \<Rightarrow> ('r, 's) ServeMux outcome" where
  "register_all c mux [] = Return mux"
| "register_all c mux (entry # entries) =
     and_then (register c mux entry) (\<lambda>mux'. register_all c mux' entries)"

definition SetupHTTP ::
  "'r extern \<Rightarrow> ('r, 's) CloudAPI \<Rightarrow> nat list \<Rightarrow> ('r, 's) ServeMux \<Rightarrow> ('r, 's) ServeMux outcome" where
  "SetupHTTP X c visit mux = register_all c mux (map (\<lambda>i. handlers X c ! i) visit)"

subsection \<open>The words of the specification\<close>

text \<open>
  The text before the first occurrence of a character and the text after it, and the
  entry that a segment \<open>key=value\<close> of a query string stands for.
\<close>

definition text_before :: "char \<Rightarrow> string \<Rightarrow> string" where
  "text_before c s = takeWhile (\<lambda>x. x \<noteq> c) s"

definition text_after :: "char \<Rightarrow> string \<Rightarrow> string" where
  "text_after c s = drop 1 (dropWhile (\<lambda>x. x \<noteq> c) s)"

definition key_value :: "string \<Rightarrow> string \<times> string" where
  "key_value seg = (text_before CHR ''='' seg, text_after CHR ''='' seg)"

text \<open>
  A handler responds with a status code and a body: it returns no error and the store
  \<open>s'\<close>, and the writer has got the content length of the body, the status code and the
  body. A handler refuses with an error response: it returns it as its error, and leaves
  the writer and the store as they were.
\<close>

definition responds :: "'s result \<Rightarrow> ResponseWriter \<Rightarrow> int \<Rightarrow> string \<Rightarrow> 's \<Rightarrow> bool" where
  "responds res w code body s' =
     (res = Return (None,
        w\<lparr>header := (header w)(''Content-Length'' \<mapsto> Itoa (int (length body))),
          status := Some code, written := written w @ body\<rparr>, s'))"

definition refuses :: "'s result \<Rightarrow> ResponseWriter \<Rightarrow> ErrorResponse \<Rightarrow> 's \<Rightarrow> bool" where
  "refuses res w e s = (res = Return (Some (Renderable e), w, s))"

text \<open>
  A handler responds with a status code and an empty body: it returns no error and the
  store \<open>s'\<close>, the writer has got the status code, and no byte of a body has been added.
\<close>

definition responds_empty :: "'s result \<Rightarrow> ResponseWriter \<Rightarrow> int \<Rightarrow> 's \<Rightarrow> bool" where
  "responds_empty res w code s' =
     (case res of
        Return (None, w', s'') \<Rightarrow> status w' = Some code \<and> written w' = written w \<and> s'' = s'
      | _ \<Rightarrow> False)"

text \<open>
  The table of the action commands: the store operation that the \<open>action\<close> query
  parameter of a request names for a machine, if any; \<open>resize\<close> takes the parameter
  \<open>package\<close> and \<open>rename\<close> the parameter \<open>name\<close>.
\<close>

definition action_command ::
  "('r, 's) CloudAPI \<Rightarrow> string \<Rightarrow> Request \<Rightarrow> ('s \<Rightarrow> go_error option \<times> 's) option" where
  "action_command c machineID r =
     (let action = Query_Get r ''action'' in
      if action = ''stop'' then Some (StopMachine c machineID)
      else if action = ''start'' then Some (StartMachine c machineID)
      else if action = ''reboot'' then Some (RebootMachine c machineID)
      else if action = ''resize'' then Some (ResizeMachine c machineID (Query_Get r ''package''))
      else if action = ''rename'' then Some (RenameMachine c machineID (Query_Get r ''name''))
      else if action = ''enable_firewall'' then Some (EnableFirewallMachine c machineID)
      else if action = ''disable_firewall'' then Some (DisableFirewallMachine c machineID)
      else None)"

text \<open>Decoding a body as an options structure, an empty body meaning all defaults.\<close>

definition decoded_or_default :: "(string \<Rightarrow> go_error + 'o) \<Rightarrow> 'o \<Rightarrow> string \<Rightarrow> go_error + 'o" where
  "decoded_or_default decode dflt body = (if body = '''' then Inr dflt else decode body)"

text \<open>
  The fields of a machine-create body, in the words of the specification. A value is of
  the expected type for its key when it is a string for \<open>name\<close>, \<open>package\<close>,
  \<open>image\<close> and for a key with the prefix \<open>tag.\<close> or \<open>metadata.\<close>, and an array of
  strings for \<open>networks\<close>; any value will do for another key, and the nil value for
  every key.
\<close>

definition is_string :: "json_value \<Rightarrow> bool" where
  "is_string v = (case v of JString t \<Rightarrow> True | _ \<Rightarrow> False)"

definition is_string_array :: "json_value \<Rightarrow> bool" where
  "is_string_array v = (case v of JArray vs \<Rightarrow> list_all is_string vs | _ \<Rightarrow> False)"

definition field_ok :: "string \<Rightarrow> json_value \<Rightarrow> bool" where
  "field_ok k v =
     (v = JNil \<or>
      (if k = ''name'' \<or> k = ''package'' \<or> k = ''image'' then is_string v
       else if k = ''networks'' then is_string_array v
       else if HasPrefix k ''tag.'' \<or> HasPrefix k ''metadata.'' then is_string v
       else True))"

fun the_string :: "json_value \<Rightarrow> string" where
  "the_string (JString t) = t"
| "the_string v = ''''"

text \<open>
  The string bound to a key (the empty string when the key is absent or nil), the
  string array bound to \<open>networks\<close> (the nil slice when absent or nil), and the mapping
  from the keys with a prefix, the prefix stripped, to their strings.
\<close>

definition string_field :: "(string \<times> json_value) list \<Rightarrow> string \<Rightarrow> string" where
  "string_field opts k = (case map_of opts k of Some (JString t) \<Rightarrow> t | _ \<Rightarrow> '''')"

definition networks_field :: "(string \<times> json_value) list \<Rightarrow> string list option" where
  "networks_field opts =
     (case map_of opts ''networks'' of Some (JArray vs) \<Rightarrow> Some (map the_string vs) | _ \<Rightarrow> None)"

definition prefixed_fields :: "string \<Rightarrow> (string \<times> json_value) list \<Rightarrow> (string \<rightharpoonup> string)" where
  "prefixed_fields pre opts =
     (\<lambda>k. case map_of opts (pre @ k) of Some (JString t) \<Rightarrow> Some t | _ \<Rightarrow> None)"

text \<open>The same on top of variables that are already set.\<close>

definition extracted_onto :: "machine_vars \<Rightarrow> (string \<times> json_value) list \<Rightarrow> machine_vars" where
  "extracted_onto vars opts =
     \<lparr>m_name = (case map_of opts ''name'' of Some (JString t) \<Rightarrow> t | _ \<Rightarrow> m_name vars),
      m_pkg = (case map_of opts ''package'' of Some (JString t) \<Rightarrow> t | _ \<Rightarrow> m_pkg vars),
      m_image = (case map_of opts ''image'' of Some (JString t) \<Rightarrow> t | _ \<Rightarrow> m_image vars),
      m_networks = (case map_of opts ''networks'' of
                      Some (JArray vs) \<Rightarrow> Some (map the_string vs) | _ \<Rightarrow> m_networks vars),
      m_metadata = (\<lambda>k. case map_of opts (''metadata.'' @ k) of
                      Some (JString t) \<Rightarrow> Some t | _ \<Rightarrow> m_metadata vars k),
      m_tags = (\<lambda>k. case map_of opts (''tag.'' @ k) of
                      Some (JString t) \<Rightarrow> Some t | _ \<Rightarrow> m_tags vars k)\<rparr>"

subsection \<open>The registrations of one route, and a concrete service\<close>

text \<open>The calls of \<open>Handle\<close> that one run of the loop body of \<open>SetupHTTP\<close> makes.\<close>

definition routes :: "('r, 's) CloudAPI \<Rightarrow> string \<times> ('r, 's) Handler \<Rightarrow> (string \<times> ('r, 's) Handler) list" where
  "routes c entry =
     (let path = Replace1 (fst entry) ''$user'' (UserAccount c); h = snd entry in
      if \<not> HasSuffix path ''/'' then [(path @ ''/'', h), (path, h)] else [(path, h)])"

text \<open>
  A service for concrete runs: the account is \<open>acct\<close>, the store is the log of the
  operations called, a resource is the text of its JSON members. The list and get
  operations find nothing; the create operations return a resource made of their arguments.
  The log entry of \<open>CreateMachine\<close> shows the networks, the metadata entry \<open>role\<close>
  and the tag \<open>env\<close> that it was given.
\<close>

definition sample_api :: "(string, string list) CloudAPI" where
  "sample_api =
     \<lparr>UserAccount = ''acct'',
      ListKeys = (\<lambda>s. (Inr None, s @ [''ListKeys''])),
      GetKey = (\<lambda>i s. (Inr None, s @ [''GetKey '' @ i])),
      CreateKey = (\<lambda>n k s. (Inr (Some (n @ '' '' @ k)), s @ [''CreateKey '' @ n @ '' '' @ k])),
      DeleteKey = (\<lambda>i s. (None, s @ [''DeleteKey '' @ i])),
      ListImages = (\<lambda>f s. (Inr None, s @ [''ListImages''])),
      GetImage = (\<lambda>i s. (Inr None, s @ [''GetImage '' @ i])),
      ListPackages = (\<lambda>f s. (Inr None, s @ [''ListPackages''])),
      GetPackage = (\<lambda>i s. (Inr None, s @ [''GetPackage '' @ i])),
      ListMachines = (\<lambda>f s. (Inr None, s @ [''ListMachines''])),
      ListMachineFirewallRules = (\<lambda>i s. (Inr None, s @ [''ListMachineFirewallRules '' @ i])),
      GetMachine = (\<lambda>i s. (Inr None, s @ [''GetMachine '' @ i])),
      CountMachines = (\<lambda>s. (Inr 0, s @ [''CountMachines''])),
      CreateMachine = (\<lambda>n p i nets md tg s.
        (Inr (Some (n @ '' '' @ p @ '' '' @ i)),
         s @ [''CreateMachine '' @ n @ '' '' @ p @ '' '' @ i @
              '' networks='' @ Join (non_nil_slice nets) '','' @
              '' metadata.role='' @ non_nil_ptr ''-'' (md ''role'') @
              '' tag.env='' @ non_nil_ptr ''-'' (tg ''env'')])),
      StopMachine = (\<lambda>i s. (None, s @ [''StopMachine '' @ i])),
      StartMachine = (\<lambda>i s. (None, s @ [''StartMachine '' @ i])),
      RebootMachine = (\<lambda>i s. (None, s @ [''RebootMachine '' @ i])),
      ResizeMachine = (\<lambda>i p s. (None, s @ [''ResizeMachine '' @ i @ '' '' @ p])),
      RenameMachine = (\<lambda>i n s. (None, s @ [''RenameMachine '' @ i @ '' '' @ n])),
      EnableFirewallMachine = (\<lambda>i s. (None, s @ [''EnableFirewallMachine '' @ i])),
      DisableFirewallMachine = (\<lambda>i s. (None, s @ [''DisableFirewallMachine '' @ i])),
      DeleteMachine = (\<lambda>i s. (None, s @ [''DeleteMachine '' @ i])),
      ListFirewallRules = (\<lambda>s. (Inr None, s @ [''ListFirewallRules''])),
      GetFirewallRule = (\<lambda>i s. (Inr None, s @ [''GetFirewallRule '' @ i])),
      CreateFirewallRule = (\<lambda>rl en s. (Inr (Some rl), s @ [''CreateFirewallRule '' @ rl])),
      EnableFirewallRule = (\<lambda>i s. (Inr None, s @ [''EnableFirewallRule '' @ i])),
      DisableFirewallRule = (\<lambda>i s. (Inr None, s @ [''DisableFirewallRule '' @ i])),
      UpdateFirewallRule = (\<lambda>i rl en s. (Inr (Some rl), s @ [''UpdateFirewallRule '' @ i @ '' '' @ rl])),
      DeleteFirewallRule = (\<lambda>i s. (None, s @ [''DeleteFirewallRule '' @ i])),
      ListNetworks = (\<lambda>s. (Inr None, s @ [''ListNetworks''])),
      GetNetwork = (\<lambda>i s. (Inr None, s @ [''GetNetwork '' @ i]))\<rparr>"

text \<open>
  The outside of the file for concrete runs: every struct encodes as its own text, a key
  body decodes to the name \<open>k1\<close>, a rule body to an enabled rule, and a machine body
  to five entries: a nil name, a tag, a metadata entry, two networks and a number under
  a key that the handler does not know. A string is quoted by putting it between double
  quotes, as \<open>%q\<close> does for a string of letters.
\<close>

definition sample_extern :: "string extern" where
  "sample_extern =
     \<lparr>zero_Key = ''key0'', zero_Image = ''image0'', zero_Package = ''package0'',
      zero_Machine = ''machine0'', zero_FirewallRule = ''rule0'', zero_Network = ''network0'',
      struct_members = Inr,
      Unmarshal_CreateKeyOpts = (\<lambda>b. Inr \<lparr>Name = ''k1'', Key = ''ssh-rsa AAA''\<rparr>),
      Unmarshal_CreateFwRuleOpts = (\<lambda>b. Inr \<lparr>Enabled = True, Rule = ''BLOCK''\<rparr>),
      Unmarshal_map = (\<lambda>b. Inr [(''name'', JNil), (''tag.env'', JString ''prod''),
                                (''metadata.role'', JString ''db''),
                                (''networks'', JArray [JString ''net1'', JString ''net2'']),
                                (''color'', JNumber 3)]),
      Quote = (\<lambda>t. [CHR 0x22] @ t @ [CHR 0x22])\<rparr>"

text \<open>The same with a machine body that binds \<open>name\<close> to a number.\<close>

definition numeric_name_extern :: "string extern" where
  "numeric_name_extern = sample_extern\<lparr>Unmarshal_map := (\<lambda>b. Inr [(''name'', JNumber 5)])\<rparr>"

text \<open>The service with a store that fails to resize a machine and to delete a key.\<close>

definition failing_api :: "(string, string list) CloudAPI" where
  "failing_api =
     sample_api\<lparr>ResizeMachine := (\<lambda>i p s. (Some (Plain ''machine is busy''), s)),
       DeleteKey := (\<lambda>i s. (Some (Plain ''key is in use''), s))\<rparr>"

definition sample_request :: Request where
  "sample_request =
     \<lparr>Method = ''GET'', Path = ''/acct/keys'', RawQuery = '''', Query_Get = (\<lambda>k. ''''),
      ReadAll_Body = Inr ''''\<rparr>"

text \<open>
  The request \<open>POST /acct/machines/mymachines?action=stop\<close>, for the machine with the
  identifier \<open>mymachines\<close>.
\<close>

definition stop_mymachines_request :: Request where
  "stop_mymachines_request =
     \<lparr>Method = ''POST'', Path = ''/acct/machines/mymachines'', RawQuery = ''action=stop'',
      Query_Get = (\<lambda>k. if k = ''action'' then ''stop'' else ''''),
      ReadAll_Body = Inr ''''\<rparr>"

text \<open>The request \<open>POST /acct/machines/m1?action=resize&package=g4\<close>.\<close>

definition resize_request :: Request where
  "resize_request =
     \<lparr>Method = ''POST'', Path = ''/acct/machines/m1'', RawQuery = ''action=resize&package=g4'',
      Query_Get = (\<lambda>k. if k = ''action'' then ''resize'' else if k = ''package'' then ''g4'' else ''''),
      ReadAll_Body = Inr ''''\<rparr>"

section \<open>Properties\<close>

subsection \<open>The writer\<close>

lemma canonical_known [simp]:
  "CanonicalHeaderKey ''Content-Type'' = ''Content-Type''"
  "CanonicalHeaderKey ''Content-Length'' = ''Content-Length''"
  by code_simp+

lemma body_allowed_codes [simp]:
  "bodyAllowedForStatus 200" "bodyAllowedForStatus 201" "bodyAllowedForStatus 202"
  "bodyAllowedForStatus 400" "bodyAllowedForStatus 404" "bodyAllowedForStatus 405"
  "bodyAllowedForStatus 500" "\<not> bodyAllowedForStatus 204"
  by (simp_all add: bodyAllowedForStatus_def)

lemma Write_after_header:
  "status w = Some code \<Longrightarrow>
     Write data w = (if bodyAllowedForStatus code then w\<lparr>written := written w @ data\<rparr> else w)"
  by (simp add: Write_def WriteHeader_def Let_def)

subsection \<open>Strings\<close>

lemma Index_char:
  "Index s [c] = (if c \<in> set s then int (length (takeWhile (\<lambda>x. x \<noteq> c) s)) else - 1)"
  by (induction s) (auto simp: Let_def)

lemma split_from_char:
  "split_from [c] cur (x # s) =
     (if x = c then cur # split_from [c] [] s else split_from [c] (cur @ [x]) s)"
  by auto

lemma split_from_nonempty: "split_from sep cur s \<noteq> []"
  by (induction sep cur s rule: split_from.induct) auto

lemma Join_Cons: "ys \<noteq> [] \<Longrightarrow> Join (a # ys) sep = a @ sep @ Join ys sep"
  by (cases ys) auto

text \<open>Splitting at a character and joining again gives the string back.\<close>

lemma Join_split_from: "Join (split_from [c] cur s) [c] = cur @ s"
proof (induction s arbitrary: cur)
  case Nil
  then show ?case by simp
next
  case (Cons x s)
  show ?case
  proof (cases "x = c")
    case True
    then show ?thesis
      using Cons.IH [of "[]"] by (simp add: Join_Cons split_from_nonempty)
  next
    case False
    then show ?thesis
      using Cons.IH [of "cur @ [x]"] by simp
  qed
qed

lemma Join_Split: "Join (Split s [c]) [c] = s"
  by (simp add: Split_def Join_split_from)

text \<open>No segment of a split at a character holds the character.\<close>

lemma split_from_no_sep:
  "c \<notin> set cur \<Longrightarrow> seg \<in> set (split_from [c] cur s) \<Longrightarrow> c \<notin> set seg"
proof (induction s arbitrary: cur)
  case Nil
  then show ?case by simp
next
  case (Cons x s)
  show ?case
  proof (cases "x = c")
    case True
    with Cons.prems have "seg = cur \<or> seg \<in> set (split_from [c] [] s)"
      by (simp add: split_from_char)
    then show ?thesis using Cons.IH [of "[]"] Cons.prems(1) by auto
  next
    case False
    with Cons.prems have "seg \<in> set (split_from [c] (cur @ [x]) s)"
      by (simp add: split_from_char)
    then show ?thesis using Cons.IH [of "cur @ [x]"] Cons.prems(1) False by auto
  qed
qed

lemma Split_no_sep: "seg \<in> set (Split s [c]) \<Longrightarrow> c \<notin> set seg"
  using split_from_no_sep [of c "[]" seg s] by (simp add: Split_def)

subsection \<open>processFilter\<close>

lemma filter_entry_eq:
  "filter_entry m fl =
     (if CHR ''='' \<in> set fl
      then Return (m(text_before CHR ''='' fl \<mapsto> text_after CHR ''='' fl)) else Panic)"
proof (cases "CHR ''='' \<in> set fl")
  case True
  have len: "length (takeWhile (\<lambda>x. x \<noteq> CHR ''='') fl) < length fl"
    using True by (induction fl) auto
  have dr: "drop (Suc (length (takeWhile (\<lambda>x. x \<noteq> CHR ''='') fl))) fl =
      drop 1 (dropWhile (\<lambda>x. x \<noteq> CHR ''='') fl)"
    unfolding dropWhile_eq_drop by simp
  have tk: "take (length (takeWhile (\<lambda>x. x \<noteq> CHR ''='') fl)) fl =
      takeWhile (\<lambda>x. x \<noteq> CHR ''='') fl"
    by (rule takeWhile_eq_take [symmetric])
  show ?thesis using True len dr tk
    by (simp add: filter_entry_def Index_char slice_to_def slice_from_def and_then_def
        text_before_def text_after_def nat_add_distrib)
next
  case False
  then show ?thesis
    by (simp add: filter_entry_def Index_char slice_to_def and_then_def)
qed

lemma filter_loop_eq:
  "filter_loop m fls =
     (if \<forall>fl \<in> set fls. CHR ''='' \<in> set fl
      then Return (m ++ map_of (rev (map key_value fls))) else Panic)"
proof (induction fls arbitrary: m)
  case Nil
  then show ?case by simp
next
  case (Cons fl fls)
  have kv: "m(text_before CHR ''='' fl \<mapsto> text_after CHR ''='' fl) = m ++ map_of [key_value fl]"
    by (simp add: key_value_def)
  show ?case
    by (simp add: filter_entry_eq and_then_def Cons.IH kv del: map_of.simps)
qed

text \<open>
  C7. The raw query \<open>a=1&b=2\<close> gives the mapping of \<open>a\<close> to \<open>1\<close> and \<open>b\<close> to \<open>2\<close>.
  The empty raw query gives the nil mapping, which is not the empty mapping. In general,
  when every segment between \<open>&\<close> holds a \<open>=\<close>, the result is the mapping built from
  the segments in their order, each giving the entry from the text before its first \<open>=\<close>
  to the text after it (a later segment with the same key replaces the entry), and the
  texts are taken as they stand, without URL-decoding.
\<close>

theorem processFilter_mapping:
  "processFilter ''a=1&b=2'' = Return (Some [''a'' \<mapsto> ''1'', ''b'' \<mapsto> ''2'']) \<and>
   processFilter '''' = Return None \<and>
   (Return None :: filters outcome) \<noteq> Return (Some Map.empty) \<and>
   (rawQuery \<noteq> '''' \<and> (\<forall>seg \<in> set (Split rawQuery ''&''). CHR ''='' \<in> set seg) \<longrightarrow>
      processFilter rawQuery =
        Return (Some (map_of (rev (map key_value (Split rawQuery ''&''))))))"
  by (simp add: processFilter_def filter_loop_eq and_then_def Split_def key_value_def
      text_before_def text_after_def)

theorem processFilter_mapping_witness:
  "processFilter ''x=1&y=&x=3=4&%20=a+b'' =
     Return (Some [''y'' \<mapsto> '''', ''x'' \<mapsto> ''3=4'', ''%20'' \<mapsto> ''a+b''])"
  using processFilter_mapping [of "''x=1&y=&x=3=4&%20=a+b''"]
  by (simp add: Split_def key_value_def text_before_def text_after_def)

text \<open>
  C9. \<open>processFilter\<close> panics exactly on a non-empty raw query with a segment between
  \<open>&\<close> that holds no \<open>=\<close>: there \<open>strings.Index\<close> is \<open>-1\<close> and the slice expression
  \<open>filter[:-1]\<close> is out of range. On every other raw query it returns.
\<close>

theorem processFilter_partial:
  "(processFilter rawQuery = Panic) =
     (rawQuery \<noteq> '''' \<and> (\<exists>seg \<in> set (Split rawQuery ''&''). CHR ''='' \<notin> set seg))"
  by (simp add: processFilter_def filter_loop_eq and_then_def)

theorem processFilter_partial_witness:
  "processFilter ''flag'' = Panic \<and> processFilter ''a=1&flag'' = Panic \<and>
   processFilter ''a=1&b=2'' \<noteq> Panic"
  using processFilter_partial [of "''flag''"] processFilter_partial [of "''a=1&flag''"]
    processFilter_partial [of "''a=1&b=2''"]
  by (simp add: Split_def)

subsection \<open>Evaluating prefixes and suffixes\<close>

lemma HasSuffix_drop:
  "HasSuffix s suf = (length suf \<le> length s \<and> drop (length s - length suf) s = suf)"
  by (auto simp: HasSuffix_def suffix_def) (metis append_take_drop_id)

lemma HasPrefix_take: "HasPrefix s pre = (take (length pre) s = pre)"
  by (auto simp: HasPrefix_def prefix_def) (metis append_take_drop_id)

subsection \<open>Serving errors\<close>


text \<open>
  The extra headers of an error response go through \<open>Header().Set\<close> too: the key
  \<open>content-type\<close> replaces the content type that was set before.
\<close>

lemma canonical_content_type: "CanonicalHeaderKey ''content-type'' = ''Content-Type''"
  by code_simp

lemma ErrorResponse_ServeHTTP_extra_header:
  "header (ErrorResponse_ServeHTTP (ErrNotFound\<lparr>headers := Some [(''content-type'', ''text/html'')]\<rparr>)
     fresh_writer) =
   [''Content-Type'' \<mapsto> ''text/html'', ''Content-Length'' \<mapsto> ''18'']"
  by (simp add: ErrorResponse_ServeHTTP_def ErrNotFound_def fresh_writer_def Header_Set_def
      WriteHeader_def Write_def Itoa_def digits.simps Let_def canonical_content_type)



subsection \<open>SetupHTTP and the trailing slash\<close>

lemma HasSuffix_last: "s \<noteq> [] \<Longrightarrow> HasSuffix s [x] = (last s = x)"
  by (cases s rule: rev_cases) (auto simp: HasSuffix_def)

lemma Handle_fresh:
  "pattern \<noteq> '''' \<Longrightarrow> pattern \<notin> fst ` set mux \<Longrightarrow> Handle mux pattern h = Return (mux @ [(pattern, h)])"
  by (simp add: Handle_def)

lemma register_fresh:
  assumes "'''' \<notin> fst ` set (routes c entry)"
    and "fst ` set (routes c entry) \<inter> fst ` set mux = {}"
  shows "register c mux entry = Return (mux @ routes c entry)"
  using assms
  by (auto simp: register_def routes_def Let_def and_then_def Handle_def split: if_splits)

lemma register_all_fresh:
  "'''' \<notin> fst ` set (concat (map (routes c) es)) \<Longrightarrow>
   distinct (map fst (mux @ concat (map (routes c) es))) \<Longrightarrow>
   register_all c mux es = Return (mux @ concat (map (routes c) es))"
proof (induction es arbitrary: mux)
  case Nil
  then show ?case by simp
next
  case (Cons e es)
  have r: "register c mux e = Return (mux @ routes c e)"
    using Cons.prems by (intro register_fresh) auto
  have "register_all c (mux @ routes c e) es = Return ((mux @ routes c e) @ concat (map (routes c) es))"
    using Cons.prems by (intro Cons.IH) auto
  then show ?case by (simp add: r and_then_def)
qed


lemma routes_table:
  "concat (map (routes c) (handlers X c)) =
     [(''/'', ErrorHandler ErrNotFound),
      (''/'' @ UserAccount c @ ''/'', ErrorHandler ErrBadRequest),
      (''/'' @ UserAccount c @ ''/keys/'', MethodHandler (handler c (handleKeys X))),
      (''/'' @ UserAccount c @ ''/keys'', MethodHandler (handler c (handleKeys X))),
      (''/'' @ UserAccount c @ ''/images/'', MethodHandler (handler c (handleImages X))),
      (''/'' @ UserAccount c @ ''/images'', MethodHandler (handler c (handleImages X))),
      (''/'' @ UserAccount c @ ''/packages/'', MethodHandler (handler c (handlePackages X))),
      (''/'' @ UserAccount c @ ''/packages'', MethodHandler (handler c (handlePackages X))),
      (''/'' @ UserAccount c @ ''/machines/'', MethodHandler (handler c (handleMachines X))),
      (''/'' @ UserAccount c @ ''/machines'', MethodHandler (handler c (handleMachines X))),
      (''/'' @ UserAccount c @ ''/fwrules/'', MethodHandler (handler c (handleFwRules X))),
      (''/'' @ UserAccount c @ ''/fwrules'', MethodHandler (handler c (handleFwRules X))),
      (''/'' @ UserAccount c @ ''/networks/'', MethodHandler (handler c (handleNetworks X))),
      (''/'' @ UserAccount c @ ''/networks'', MethodHandler (handler c (handleNetworks X)))]"
  by (simp add: handlers_def routes_def HasSuffix_last Let_def)

lemma routes_table_distinct: "distinct (map fst (concat (map (routes c) (handlers X c))))"
  unfolding routes_table by simp

lemma routes_table_nonempty: "'''' \<notin> fst ` set (concat (map (routes c) (handlers X c)))"
  unfolding routes_table by simp

lemma mset_concat_map:
  "mset xs = mset ys \<Longrightarrow> mset (concat (map f xs)) = mset (concat (map f ys))"
proof -
  assume eq: "mset xs = mset ys"
  have "\<And>zs. mset (concat (map f zs)) = sum_mset (image_mset (\<lambda>z. mset (f z)) (mset zs))"
    by (induct_tac zs) auto
  then show ?thesis using eq by simp
qed

lemma visit_perm:
  assumes "sort visit = [0..<length T]"
  shows "mset (map (\<lambda>i. T ! i) visit) = mset T"
proof -
  have "mset visit = mset (sort visit)" by simp
  then have "mset visit = mset [0..<length T]" using assms by simp
  then have "mset (map (\<lambda>i. T ! i) visit) = mset (map (\<lambda>i. T ! i) [0..<length T])"
    by (metis mset_map)
  then show ?thesis by (simp add: map_nth)
qed


lemma ServeHTTP_trailing_slash:
  "HasSuffix (Path r) ''/'' \<and> Path r \<noteq> ''/'' \<Longrightarrow>
    cloudapiHandler_ServeHTTP h w r s = Return (ErrorResponse_ServeHTTP ErrNotFound w, s)"
  by (simp add: cloudapiHandler_ServeHTTP_def)

lemma SetupHTTP_eq:
  assumes "sort visit = [0..<8]"
  shows "SetupHTTP X c visit [] = Return (concat (map (routes c) (map (\<lambda>i. handlers X c ! i) visit)))"
    and "mset (concat (map (routes c) (map (\<lambda>i. handlers X c ! i) visit))) =
         mset (concat (map (routes c) (handlers X c)))"
proof -
  let ?T = "handlers X c"
  let ?es = "map (\<lambda>i. ?T ! i) visit"
  have len: "length ?T = 8" by (simp add: handlers_def)
  have "mset ?es = mset ?T"
    using assms visit_perm [of visit ?T] by (simp add: len)
  then show m: "mset (concat (map (routes c) ?es)) = mset (concat (map (routes c) ?T))"
    by (rule mset_concat_map)
  then have m': "mset (map fst (concat (map (routes c) ?es))) = mset (map fst (concat (map (routes c) ?T)))"
    by simp
  have d: "distinct (map fst (concat (map (routes c) ?es)))"
    using mset_eq_imp_distinct_iff [OF m'] routes_table_distinct [of c X] by simp
  have "set (concat (map (routes c) ?es)) = set (concat (map (routes c) ?T))"
    using m by (rule mset_eq_setD)
  then have n: "'''' \<notin> fst ` set (concat (map (routes c) ?es))"
    using routes_table_nonempty [of c X] by simp
  show "SetupHTTP X c visit [] = Return (concat (map (routes c) ?es))"
    unfolding SetupHTTP_def using register_all_fresh [of c ?es "[]"] d n by simp
qed

lemma routes_generic:
  "(path, hnd) \<in> set T \<Longrightarrow>
     (let p = Replace1 path ''$user'' (UserAccount c) in
        (p, hnd) \<in> set (concat (map (routes c) T)) \<and>
        (\<not> HasSuffix p ''/'' \<longrightarrow> (p @ ''/'', hnd) \<in> set (concat (map (routes c) T))))"
  by (force simp: routes_def Let_def)

text \<open>
  C1. In whatever order the loop visits the eight entries of the route table, \<open>SetupHTTP\<close>
  on a new mux returns, with fourteen registrations of distinct patterns: every entry is
  registered under its path, and an entry whose path does not end in \<open>/\<close> also under
  the path with \<open>/\<close> appended, with the same handler; the root \<open>/\<close> is there, once.
  Yet a method handler registered under a pattern that ends in \<open>/\<close> answers a request
  for that very path with the not-found response, and so does \<open>cloudapiHandler.ServeHTTP\<close>
  for every path that ends in \<open>/\<close> and is not \<open>/\<close>: whatever the handler method is,
  it is not run and the store stays as it was. On a new writer that response is status
  404 with the body \<open>Resource Not Found\<close>.
\<close>

theorem SetupHTTP_and_trailing_slash:
  "(sort visit = [0..<8] \<longrightarrow>
     (\<exists>mux. SetupHTTP X c visit [] = Return mux \<and>
        distinct (map fst mux) \<and> length mux = 14 \<and>
        (''/'', ErrorHandler ErrNotFound) \<in> set mux \<and>
        (\<forall>(path, hnd) \<in> set (handlers X c).
           let p = Replace1 path ''$user'' (UserAccount c) in
             (p, hnd) \<in> set mux \<and> (\<not> HasSuffix p ''/'' \<longrightarrow> (p @ ''/'', hnd) \<in> set mux)) \<and>
        (\<forall>(p, hnd) \<in> set mux. \<forall>h. hnd = MethodHandler h \<and> HasSuffix p ''/'' \<and> p \<noteq> ''/'' \<longrightarrow>
           Handler_ServeHTTP hnd w (r\<lparr>Path := p\<rparr>) s =
             Return (ErrorResponse_ServeHTTP ErrNotFound w, s)))) \<and>
   (HasSuffix (Path r) ''/'' \<and> Path r \<noteq> ''/'' \<longrightarrow>
      cloudapiHandler_ServeHTTP h w r s = Return (ErrorResponse_ServeHTTP ErrNotFound w, s)) \<and>
   ErrorResponse_ServeHTTP ErrNotFound fresh_writer =
     \<lparr>header = [''Content-Type'' \<mapsto> ''text/plain; charset=UTF-8'', ''Content-Length'' \<mapsto> ''18''],
      status = Some StatusNotFound, written = ''Resource Not Found''\<rparr>"
proof (intro conjI impI)
  assume v: "sort visit = [0..<8]"
  let ?mux = "concat (map (routes c) (map (\<lambda>i. handlers X c ! i) visit))"
  let ?tab = "concat (map (routes c) (handlers X c))"
  have run: "SetupHTTP X c visit [] = Return ?mux"
    using v by (rule SetupHTTP_eq(1))
  have m: "mset ?mux = mset ?tab"
    using v by (rule SetupHTTP_eq(2))
  have st: "set ?mux = set ?tab"
    using m by (rule mset_eq_setD)
  have "mset (map fst ?mux) = mset (map fst ?tab)"
    using m by simp
  then have d: "distinct (map fst ?mux)"
    using mset_eq_imp_distinct_iff routes_table_distinct [of c X] by blast
  have l: "length ?mux = 14"
    using mset_eq_length [OF m] by (simp add: routes_table)
  have root: "(''/'', ErrorHandler ErrNotFound) \<in> set ?mux"
    unfolding st routes_table by simp
  have gen: "\<forall>(path, hnd) \<in> set (handlers X c).
      let p = Replace1 path ''$user'' (UserAccount c) in
        (p, hnd) \<in> set ?mux \<and> (\<not> HasSuffix p ''/'' \<longrightarrow> (p @ ''/'', hnd) \<in> set ?mux)"
    unfolding st using routes_generic [of _ _ "handlers X c" c] by blast
  have nf: "\<forall>(p, hnd) \<in> set ?mux. \<forall>h. hnd = MethodHandler h \<and> HasSuffix p ''/'' \<and> p \<noteq> ''/'' \<longrightarrow>
      Handler_ServeHTTP hnd w (r\<lparr>Path := p\<rparr>) s = Return (ErrorResponse_ServeHTTP ErrNotFound w, s)"
    by (auto simp: Handler_ServeHTTP_def ServeHTTP_trailing_slash)
  show "\<exists>mux. SetupHTTP X c visit [] = Return mux \<and>
        distinct (map fst mux) \<and> length mux = 14 \<and>
        (''/'', ErrorHandler ErrNotFound) \<in> set mux \<and>
        (\<forall>(path, hnd) \<in> set (handlers X c).
           let p = Replace1 path ''$user'' (UserAccount c) in
             (p, hnd) \<in> set mux \<and> (\<not> HasSuffix p ''/'' \<longrightarrow> (p @ ''/'', hnd) \<in> set mux)) \<and>
        (\<forall>(p, hnd) \<in> set mux. \<forall>h. hnd = MethodHandler h \<and> HasSuffix p ''/'' \<and> p \<noteq> ''/'' \<longrightarrow>
           Handler_ServeHTTP hnd w (r\<lparr>Path := p\<rparr>) s =
             Return (ErrorResponse_ServeHTTP ErrNotFound w, s))"
    using run d l root gen nf by blast
next
  assume "HasSuffix (Path r) ''/'' \<and> Path r \<noteq> ''/''"
  then show "cloudapiHandler_ServeHTTP h w r s = Return (ErrorResponse_ServeHTTP ErrNotFound w, s)"
    by (rule ServeHTTP_trailing_slash)
next
  show "ErrorResponse_ServeHTTP ErrNotFound fresh_writer =
     \<lparr>header = [''Content-Type'' \<mapsto> ''text/plain; charset=UTF-8'', ''Content-Length'' \<mapsto> ''18''],
      status = Some StatusNotFound, written = ''Resource Not Found''\<rparr>"
    by (simp add: ErrorResponse_ServeHTTP_def ErrNotFound_def fresh_writer_def Header_Set_def
        WriteHeader_def Write_def Itoa_def digits.simps Let_def)
qed

theorem SetupHTTP_and_trailing_slash_witness:
  "(\<exists>mux. SetupHTTP sample_extern sample_api [7, 3, 0, 5, 1, 6, 2, 4] [] = Return mux \<and>
      (''/acct/keys'', MethodHandler (handler sample_api (handleKeys sample_extern))) \<in> set mux \<and>
      (''/acct/keys/'', MethodHandler (handler sample_api (handleKeys sample_extern))) \<in> set mux) \<and>
   cloudapiHandler_ServeHTTP (handler sample_api (handleKeys sample_extern)) fresh_writer
       (sample_request\<lparr>Path := ''/acct/keys/''\<rparr>) [] =
     Return (\<lparr>header = [''Content-Type'' \<mapsto> ''text/plain; charset=UTF-8'', ''Content-Length'' \<mapsto> ''18''],
       status = Some StatusNotFound, written = ''Resource Not Found''\<rparr>, [])"
  using SetupHTTP_and_trailing_slash [of "[7, 3, 0, 5, 1, 6, 2, 4]" sample_extern sample_api
      fresh_writer "sample_request\<lparr>Path := ''/acct/keys/''\<rparr>" "[]"
      "handler sample_api (handleKeys sample_extern)"]
  by (simp add: upt_rec handlers_def HasSuffix_drop Let_def sample_request_def) (auto simp: sample_api_def)

subsection \<open>What sendJSON writes\<close>

lemma writeResponse_fresh:
  "status w = None \<Longrightarrow> bodyAllowedForStatus code \<Longrightarrow>
     writeResponse w code body =
       w\<lparr>header := (header w)(''Content-Length'' \<mapsto> Itoa (int (length body))),
         status := Some code, written := written w @ body\<rparr>"
  by (simp add: writeResponse_def Write_after_header WriteHeader_def Header_Set_def)

lemma writeResponse_no_body:
  "status w = None \<Longrightarrow> \<not> bodyAllowedForStatus code \<Longrightarrow>
     writeResponse w code body =
       w\<lparr>header := (header w)(''Content-Length'' \<mapsto> Itoa (int (length body))),
         status := Some code\<rparr>"
  by (simp add: writeResponse_def Write_after_header WriteHeader_def Header_Set_def)


lemma sends_struct:
  "status w = None \<Longrightarrow> bodyAllowedForStatus code \<Longrightarrow> struct_members X x = Inr ms \<Longrightarrow>
     responds (sends (sendJSON X code (Ptr (Some x)) w) s') w code (CHR ''{'' # ms @ ''}'') s'"
  by (simp add: responds_def sends_def sendJSON_def ptr_json_def struct_json_def writeResponse_fresh)

lemma sends_nil:
  "status w = None \<Longrightarrow> bodyAllowedForStatus code \<Longrightarrow>
     responds (sends (sendJSON X code NilValue w) s') w code ''null'' s'"
  by (simp add: responds_def sends_def sendJSON_def writeResponse_fresh)

lemma sends_nil_no_body:
  "status w = None \<Longrightarrow> \<not> bodyAllowedForStatus code \<Longrightarrow>
     responds_empty (sends (sendJSON X code NilValue w) s') w code s'"
  by (simp add: responds_empty_def sends_def sendJSON_def writeResponse_no_body)

subsection \<open>GET: absent results\<close>










subsection \<open>The action commands of a machine\<close>

lemma accepted_eq:
  "status w = None \<Longrightarrow>
     (case op s of
        (Some err, s') \<Rightarrow> accepted X op w s = Return (Some err, w, s')
      | (None, s') \<Rightarrow> responds (accepted X op w s) w StatusAccepted ''null'' s')"
  by (auto simp: accepted_def run_def fails_def sends_nil split: prod.splits option.splits)

text \<open>
  C2, as amended. For a POST to a machines path that does not end in \<open>machines\<close>,
  which is how the handler tells a single-machine path from the collection path, on a
  writer whose header is not yet written: the \<open>action\<close> query parameter selects the
  store operation of the table (stop, start, reboot, resize with the \<open>package\<close>
  parameter, rename with the \<open>name\<close> parameter, enable_firewall, disable_firewall),
  run on the machine identifier that the path gives. When the operation returns an error,
  the handler returns that error unchanged and writes nothing. When it succeeds, the
  handler responds 202 and the body is the JSON encoding of nil, the four bytes
  \<open>null\<close>, with content length 4. With no action of the table, the handler returns the
  not-allowed error, code 405, and calls no store operation.
\<close>

theorem machine_action_dispatch:
  "status w = None \<and> Method r = ''POST'' \<and> \<not> HasSuffix (Path r) ''machines'' \<longrightarrow>
     (case action_command c (TrimPrefix (Path r) (''/'' @ UserAccount c @ ''/machines/'')) r of
        None \<Rightarrow> refuses (handleMachines X c w r s) w ErrNotAllowed s
      | Some op \<Rightarrow>
          (case op s of
             (Some err, s') \<Rightarrow> handleMachines X c w r s = Return (Some err, w, s')
           | (None, s') \<Rightarrow> responds (handleMachines X c w r s) w StatusAccepted ''null'' s')) \<and>
     Code ErrNotAllowed = StatusMethodNotAllowed"
proof (intro impI conjI)
  assume a: "status w = None \<and> Method r = ''POST'' \<and> \<not> HasSuffix (Path r) ''machines''"
  let ?id = "TrimPrefix (Path r) (''/'' @ UserAccount c @ ''/machines/'')"
  show "case action_command c ?id r of
        None \<Rightarrow> refuses (handleMachines X c w r s) w ErrNotAllowed s
      | Some op \<Rightarrow>
          (case op s of
             (Some err, s') \<Rightarrow> handleMachines X c w r s = Return (Some err, w, s')
           | (None, s') \<Rightarrow> responds (handleMachines X c w r s) w StatusAccepted ''null'' s')"
  proof (cases "action_command c ?id r")
    case None
    then show ?thesis using a
      by (simp add: action_command_def handleMachines_def refuses_def fails_def Let_def
          split: if_splits)
  next
    case (Some op)
    then have h: "handleMachines X c w r s = accepted X op w s" using a
      by (simp add: action_command_def handleMachines_def Let_def split: if_splits)
    show ?thesis unfolding h Some
      using accepted_eq [where w = w and op = op and s = s and X = X] a by simp
  qed
next
  show "Code ErrNotAllowed = StatusMethodNotAllowed" by (simp add: ErrNotAllowed_def)
qed

theorem machine_action_dispatch_witness:
  "handleMachines sample_extern sample_api fresh_writer resize_request [] =
     Return (None, \<lparr>header = [''Content-Length'' \<mapsto> ''4''], status = Some 202, written = ''null''\<rparr>,
       [''ResizeMachine m1 g4'']) \<and>
   handleMachines sample_extern failing_api fresh_writer resize_request [] =
     Return (Some (Plain ''machine is busy''), fresh_writer, []) \<and>
   handleMachines sample_extern sample_api fresh_writer (sample_request\<lparr>Method := ''POST'', Path := ''/acct/machines/m1''\<rparr>) [] =
     Return (Some (Renderable ErrNotAllowed), fresh_writer, [])"
proof -
  have "handleMachines sample_extern sample_api fresh_writer resize_request [] =
     Return (None, \<lparr>header = [''Content-Length'' \<mapsto> ''4''], status = Some 202, written = ''null''\<rparr>,
       [''ResizeMachine m1 g4''])"
    using machine_action_dispatch [where w = fresh_writer and r = "resize_request" and c = sample_api
        and X = sample_extern and s = "[]"]
    by (simp add: responds_def refuses_def fresh_writer_def sample_request_def sample_api_def
        failing_api_def sample_extern_def HasSuffix_drop TrimPrefix_def HasPrefix_take Itoa_def
        digits.simps resize_request_def action_command_def)
  moreover
  have "handleMachines sample_extern failing_api fresh_writer resize_request [] =
     Return (Some (Plain ''machine is busy''), fresh_writer, [])"
    using machine_action_dispatch [where w = fresh_writer and r = "resize_request" and c = failing_api
        and X = sample_extern and s = "[]"]
    by (simp add: responds_def refuses_def fresh_writer_def sample_request_def sample_api_def
        failing_api_def sample_extern_def HasSuffix_drop TrimPrefix_def HasPrefix_take Itoa_def
        digits.simps resize_request_def action_command_def)
  moreover
  have "handleMachines sample_extern sample_api fresh_writer (sample_request\<lparr>Method := ''POST'', Path := ''/acct/machines/m1''\<rparr>) [] =
     Return (Some (Renderable ErrNotAllowed), fresh_writer, [])"
    using machine_action_dispatch [where w = fresh_writer and r = "(sample_request\<lparr>Method := ''POST'', Path := ''/acct/machines/m1''\<rparr>)" and c = sample_api
        and X = sample_extern and s = "[]"]
    by (simp add: responds_def refuses_def fresh_writer_def sample_request_def sample_api_def
        failing_api_def sample_extern_def HasSuffix_drop TrimPrefix_def HasPrefix_take Itoa_def
        digits.simps resize_request_def action_command_def)
  ultimately show ?thesis by (intro conjI)
qed

text \<open>
  The claim C2 as written says that the body is empty, and it is about every
  single-machine path. For the resize request of the specification the body is
  \<open>null\<close>. For the machine with the identifier \<open>mymachines\<close> the path ends like the
  collection path, and the stop request creates a machine instead.
\<close>

theorem machine_action_body_counterexample:
  "handleMachines sample_extern sample_api fresh_writer resize_request [] =
     Return (None, \<lparr>header = [''Content-Length'' \<mapsto> ''4''], status = Some 202, written = ''null''\<rparr>,
       [''ResizeMachine m1 g4'']) \<and>
   \<not> responds (handleMachines sample_extern sample_api fresh_writer resize_request [])
       fresh_writer StatusAccepted '''' [''ResizeMachine m1 g4''] \<and>
   handleMachines sample_extern sample_api fresh_writer stop_mymachines_request [] =
     Return (None, \<lparr>header = [''Content-Length'' \<mapsto> ''4''], status = Some 201, written = ''{  }''\<rparr>,
       [''CreateMachine    networks= metadata.role=- tag.env=-'']) \<and>
   TrimPrefix (Path stop_mymachines_request) (''/'' @ UserAccount sample_api @ ''/machines/'') =
     ''mymachines''"
  by (simp add: handleMachines_def resize_request_def stop_mymachines_request_def sample_api_def
      sample_extern_def accepted_def run_def call_def sends_def sendJSON_def ptr_json_def
      struct_json_def machine_opts_def no_vars_def and_then_def non_nil_ptr_def non_nil_slice_def
      writeResponse_def Write_def WriteHeader_def Header_Set_def fresh_writer_def Let_def
      responds_def HasSuffix_drop TrimPrefix_def HasPrefix_take Itoa_def digits.simps)

subsection \<open>DELETE\<close>

lemma deleted_eq:
  "status w = None \<Longrightarrow>
     (case op s of
        (Some err, s') \<Rightarrow>
          run op w s (\<lambda>s'. sends (sendJSON X StatusNoContent NilValue w) s') = Return (Some err, w, s')
      | (None, s') \<Rightarrow>
          responds_empty (run op w s (\<lambda>s'. sends (sendJSON X StatusNoContent NilValue w) s'))
            w StatusNoContent s')"
  by (auto simp: run_def fails_def sends_nil_no_body split: prod.splits option.splits)

lemma keys_DELETE:
  assumes "status w = None" "Method r = ''DELETE''"
  shows "HasSuffix (Path r) ''keys'' \<Longrightarrow> refuses (handleKeys X c w r s) w ErrNotAllowed s"
    and "\<not> HasSuffix (Path r) ''keys'' \<Longrightarrow>
         (case DeleteKey c (TrimPrefix (Path r) (''/'' @ UserAccount c @ ''/keys/'')) s of
            (Some err, s') \<Rightarrow> handleKeys X c w r s = Return (Some err, w, s')
          | (None, s') \<Rightarrow> responds_empty (handleKeys X c w r s) w StatusNoContent s')"
proof -
  show "HasSuffix (Path r) ''keys'' \<Longrightarrow> refuses (handleKeys X c w r s) w ErrNotAllowed s"
    using assms by (simp add: handleKeys_def refuses_def fails_def)
  assume "\<not> HasSuffix (Path r) ''keys''"
  then have h: "handleKeys X c w r s =
      run (DeleteKey c (TrimPrefix (Path r) (''/'' @ UserAccount c @ ''/keys/''))) w s
        (\<lambda>s'. sends (sendJSON X StatusNoContent NilValue w) s')"
    using assms by (simp add: handleKeys_def)
  show "case DeleteKey c (TrimPrefix (Path r) (''/'' @ UserAccount c @ ''/keys/'')) s of
            (Some err, s') \<Rightarrow> handleKeys X c w r s = Return (Some err, w, s')
          | (None, s') \<Rightarrow> responds_empty (handleKeys X c w r s) w StatusNoContent s'"
    unfolding h using assms(1) by (rule deleted_eq)
qed

lemma machines_DELETE:
  assumes "status w = None" "Method r = ''DELETE''"
  shows "HasSuffix (Path r) ''machines'' \<Longrightarrow> refuses (handleMachines X c w r s) w ErrNotAllowed s"
    and "\<not> HasSuffix (Path r) ''machines'' \<Longrightarrow>
         (case DeleteMachine c (TrimPrefix (Path r) (''/'' @ UserAccount c @ ''/machines/'')) s of
            (Some err, s') \<Rightarrow> handleMachines X c w r s = Return (Some err, w, s')
          | (None, s') \<Rightarrow> responds_empty (handleMachines X c w r s) w StatusNoContent s')"
proof -
  show "HasSuffix (Path r) ''machines'' \<Longrightarrow> refuses (handleMachines X c w r s) w ErrNotAllowed s"
    using assms by (simp add: handleMachines_def refuses_def fails_def)
  assume "\<not> HasSuffix (Path r) ''machines''"
  then have h: "handleMachines X c w r s =
      run (DeleteMachine c (TrimPrefix (Path r) (''/'' @ UserAccount c @ ''/machines/''))) w s
        (\<lambda>s'. sends (sendJSON X StatusNoContent NilValue w) s')"
    using assms by (simp add: handleMachines_def)
  show "case DeleteMachine c (TrimPrefix (Path r) (''/'' @ UserAccount c @ ''/machines/'')) s of
            (Some err, s') \<Rightarrow> handleMachines X c w r s = Return (Some err, w, s')
          | (None, s') \<Rightarrow> responds_empty (handleMachines X c w r s) w StatusNoContent s'"
    unfolding h using assms(1) by (rule deleted_eq)
qed

lemma fwrules_DELETE:
  assumes "status w = None" "Method r = ''DELETE''"
  shows "HasSuffix (Path r) ''fwrules'' \<Longrightarrow> refuses (handleFwRules X c w r s) w ErrNotAllowed s"
    and "\<not> HasSuffix (Path r) ''fwrules'' \<Longrightarrow>
         (case DeleteFirewallRule c (TrimPrefix (Path r) (''/'' @ UserAccount c @ ''/fwrules/'')) s of
            (Some err, s') \<Rightarrow> handleFwRules X c w r s = Return (Some err, w, s')
          | (None, s') \<Rightarrow> responds_empty (handleFwRules X c w r s) w StatusNoContent s')"
proof -
  show "HasSuffix (Path r) ''fwrules'' \<Longrightarrow> refuses (handleFwRules X c w r s) w ErrNotAllowed s"
    using assms by (simp add: handleFwRules_def refuses_def fails_def)
  assume "\<not> HasSuffix (Path r) ''fwrules''"
  then have h: "handleFwRules X c w r s =
      run (DeleteFirewallRule c (TrimPrefix (Path r) (''/'' @ UserAccount c @ ''/fwrules/''))) w s
        (\<lambda>s'. sends (sendJSON X StatusNoContent NilValue w) s')"
    using assms by (simp add: handleFwRules_def)
  show "case DeleteFirewallRule c (TrimPrefix (Path r) (''/'' @ UserAccount c @ ''/fwrules/'')) s of
            (Some err, s') \<Rightarrow> handleFwRules X c w r s = Return (Some err, w, s')
          | (None, s') \<Rightarrow> responds_empty (handleFwRules X c w r s) w StatusNoContent s'"
    unfolding h using assms(1) by (rule deleted_eq)
qed

lemma read_only_DELETE:
  assumes "Method r = ''DELETE''"
  shows "refuses (handleImages X c w r s) w ErrNotAllowed s"
    and "refuses (handlePackages X c w r s) w ErrNotAllowed s"
    and "refuses (handleNetworks X c w r s) w ErrNotAllowed s"
  using assms
  by (simp_all add: handleImages_def handlePackages_def handleNetworks_def refuses_def fails_def)

text \<open>
  C6, as amended. On a writer whose header is not yet written: for keys, machines and
  firewall rules, a DELETE to a path that ends in the name of the family, as the
  collection path does, is refused with the not-allowed error (405); a DELETE to a
  single-resource path that does not end in that name calls the store's delete operation
  on the identifier that the path gives, and when that returns an error the handler
  returns it unchanged, and when it succeeds the handler responds 204 with an empty
  body. For images, packages and networks a DELETE to any path is refused with the
  not-allowed error and no store operation is called.
\<close>

theorem DELETE_by_family:
  "status w = None \<and> Method r = ''DELETE'' \<longrightarrow>
     (HasSuffix (Path r) ''keys'' \<longrightarrow> refuses (handleKeys X c w r s) w ErrNotAllowed s) \<and>
     (HasSuffix (Path r) ''machines'' \<longrightarrow> refuses (handleMachines X c w r s) w ErrNotAllowed s) \<and>
     (HasSuffix (Path r) ''fwrules'' \<longrightarrow> refuses (handleFwRules X c w r s) w ErrNotAllowed s) \<and>
     (\<not> HasSuffix (Path r) ''keys'' \<longrightarrow>
        (case DeleteKey c (TrimPrefix (Path r) (''/'' @ UserAccount c @ ''/keys/'')) s of
           (Some err, s') \<Rightarrow> handleKeys X c w r s = Return (Some err, w, s')
         | (None, s') \<Rightarrow> responds_empty (handleKeys X c w r s) w StatusNoContent s')) \<and>
     (\<not> HasSuffix (Path r) ''machines'' \<longrightarrow>
        (case DeleteMachine c (TrimPrefix (Path r) (''/'' @ UserAccount c @ ''/machines/'')) s of
           (Some err, s') \<Rightarrow> handleMachines X c w r s = Return (Some err, w, s')
         | (None, s') \<Rightarrow> responds_empty (handleMachines X c w r s) w StatusNoContent s')) \<and>
     (\<not> HasSuffix (Path r) ''fwrules'' \<longrightarrow>
        (case DeleteFirewallRule c (TrimPrefix (Path r) (''/'' @ UserAccount c @ ''/fwrules/'')) s of
           (Some err, s') \<Rightarrow> handleFwRules X c w r s = Return (Some err, w, s')
         | (None, s') \<Rightarrow> responds_empty (handleFwRules X c w r s) w StatusNoContent s')) \<and>
     refuses (handleImages X c w r s) w ErrNotAllowed s \<and>
     refuses (handlePackages X c w r s) w ErrNotAllowed s \<and>
     refuses (handleNetworks X c w r s) w ErrNotAllowed s \<and>
     Code ErrNotAllowed = StatusMethodNotAllowed"
  by (intro impI conjI; (elim conjE)?;
      ((rule keys_DELETE machines_DELETE fwrules_DELETE read_only_DELETE; assumption)
       | simp add: ErrNotAllowed_def))

theorem DELETE_by_family_witness:
  "handleKeys sample_extern sample_api fresh_writer (sample_request\<lparr>Method := ''DELETE''\<rparr>) [] =
     Return (Some (Renderable ErrNotAllowed), fresh_writer, []) \<and>
   responds_empty (handleKeys sample_extern sample_api fresh_writer (sample_request\<lparr>Method := ''DELETE'', Path := ''/acct/keys/k1''\<rparr>) [])
     fresh_writer StatusNoContent [''DeleteKey k1''] \<and>
   handleKeys sample_extern failing_api fresh_writer (sample_request\<lparr>Method := ''DELETE'', Path := ''/acct/keys/k1''\<rparr>) [] =
     Return (Some (Plain ''key is in use''), fresh_writer, []) \<and>
   handleMachines sample_extern sample_api fresh_writer (sample_request\<lparr>Method := ''DELETE'', Path := ''/acct/machines''\<rparr>) [] =
     Return (Some (Renderable ErrNotAllowed), fresh_writer, []) \<and>
   responds_empty (handleMachines sample_extern sample_api fresh_writer (sample_request\<lparr>Method := ''DELETE'', Path := ''/acct/machines/m1''\<rparr>) [])
     fresh_writer StatusNoContent [''DeleteMachine m1''] \<and>
   handleFwRules sample_extern sample_api fresh_writer (sample_request\<lparr>Method := ''DELETE'', Path := ''/acct/fwrules''\<rparr>) [] =
     Return (Some (Renderable ErrNotAllowed), fresh_writer, []) \<and>
   responds_empty (handleFwRules sample_extern sample_api fresh_writer (sample_request\<lparr>Method := ''DELETE'', Path := ''/acct/fwrules/r1''\<rparr>) [])
     fresh_writer StatusNoContent [''DeleteFirewallRule r1''] \<and>
   handleImages sample_extern sample_api fresh_writer (sample_request\<lparr>Method := ''DELETE'', Path := ''/acct/images/i1''\<rparr>) [] =
     Return (Some (Renderable ErrNotAllowed), fresh_writer, []) \<and>
   handlePackages sample_extern sample_api fresh_writer (sample_request\<lparr>Method := ''DELETE'', Path := ''/acct/packages/p1''\<rparr>) [] =
     Return (Some (Renderable ErrNotAllowed), fresh_writer, []) \<and>
   handleNetworks sample_extern sample_api fresh_writer (sample_request\<lparr>Method := ''DELETE'', Path := ''/acct/networks/n1''\<rparr>) [] =
     Return (Some (Renderable ErrNotAllowed), fresh_writer, [])"
proof -
  have "handleKeys sample_extern sample_api fresh_writer (sample_request\<lparr>Method := ''DELETE''\<rparr>) [] =
     Return (Some (Renderable ErrNotAllowed), fresh_writer, [])"
    using DELETE_by_family [where w = fresh_writer and r = "(sample_request\<lparr>Method := ''DELETE''\<rparr>)" and c = sample_api
        and X = sample_extern and s = "[]"]
    by (simp add: refuses_def fresh_writer_def sample_request_def sample_api_def failing_api_def
        HasSuffix_drop TrimPrefix_def HasPrefix_take)
  moreover
  have "responds_empty (handleKeys sample_extern sample_api fresh_writer (sample_request\<lparr>Method := ''DELETE'', Path := ''/acct/keys/k1''\<rparr>) [])
     fresh_writer StatusNoContent [''DeleteKey k1'']"
    using DELETE_by_family [where w = fresh_writer and r = "(sample_request\<lparr>Method := ''DELETE'', Path := ''/acct/keys/k1''\<rparr>)" and c = sample_api
        and X = sample_extern and s = "[]"]
    by (simp add: refuses_def fresh_writer_def sample_request_def sample_api_def failing_api_def
        HasSuffix_drop TrimPrefix_def HasPrefix_take)
  moreover
  have "handleKeys sample_extern failing_api fresh_writer (sample_request\<lparr>Method := ''DELETE'', Path := ''/acct/keys/k1''\<rparr>) [] =
     Return (Some (Plain ''key is in use''), fresh_writer, [])"
    using DELETE_by_family [where w = fresh_writer and r = "(sample_request\<lparr>Method := ''DELETE'', Path := ''/acct/keys/k1''\<rparr>)" and c = failing_api
        and X = sample_extern and s = "[]"]
    by (simp add: refuses_def fresh_writer_def sample_request_def sample_api_def failing_api_def
        HasSuffix_drop TrimPrefix_def HasPrefix_take)
  moreover
  have "handleMachines sample_extern sample_api fresh_writer (sample_request\<lparr>Method := ''DELETE'', Path := ''/acct/machines''\<rparr>) [] =
     Return (Some (Renderable ErrNotAllowed), fresh_writer, [])"
    using DELETE_by_family [where w = fresh_writer and r = "(sample_request\<lparr>Method := ''DELETE'', Path := ''/acct/machines''\<rparr>)" and c = sample_api
        and X = sample_extern and s = "[]"]
    by (simp add: refuses_def fresh_writer_def sample_request_def sample_api_def failing_api_def
        HasSuffix_drop TrimPrefix_def HasPrefix_take)
  moreover
  have "responds_empty (handleMachines sample_extern sample_api fresh_writer (sample_request\<lparr>Method := ''DELETE'', Path := ''/acct/machines/m1''\<rparr>) [])
     fresh_writer StatusNoContent [''DeleteMachine m1'']"
    using DELETE_by_family [where w = fresh_writer and r = "(sample_request\<lparr>Method := ''DELETE'', Path := ''/acct/machines/m1''\<rparr>)" and c = sample_api
        and X = sample_extern and s = "[]"]
    by (simp add: refuses_def fresh_writer_def sample_request_def sample_api_def failing_api_def
        HasSuffix_drop TrimPrefix_def HasPrefix_take)
  moreover
  have "handleFwRules sample_extern sample_api fresh_writer (sample_request\<lparr>Method := ''DELETE'', Path := ''/acct/fwrules''\<rparr>) [] =
     Return (Some (Renderable ErrNotAllowed), fresh_writer, [])"
    using DELETE_by_family [where w = fresh_writer and r = "(sample_request\<lparr>Method := ''DELETE'', Path := ''/acct/fwrules''\<rparr>)" and c = sample_api
        and X = sample_extern and s = "[]"]
    by (simp add: refuses_def fresh_writer_def sample_request_def sample_api_def failing_api_def
        HasSuffix_drop TrimPrefix_def HasPrefix_take)
  moreover
  have "responds_empty (handleFwRules sample_extern sample_api fresh_writer (sample_request\<lparr>Method := ''DELETE'', Path := ''/acct/fwrules/r1''\<rparr>) [])
     fresh_writer StatusNoContent [''DeleteFirewallRule r1'']"
    using DELETE_by_family [where w = fresh_writer and r = "(sample_request\<lparr>Method := ''DELETE'', Path := ''/acct/fwrules/r1''\<rparr>)" and c = sample_api
        and X = sample_extern and s = "[]"]
    by (simp add: refuses_def fresh_writer_def sample_request_def sample_api_def failing_api_def
        HasSuffix_drop TrimPrefix_def HasPrefix_take)
  moreover
  have "handleImages sample_extern sample_api fresh_writer (sample_request\<lparr>Method := ''DELETE'', Path := ''/acct/images/i1''\<rparr>) [] =
     Return (Some (Renderable ErrNotAllowed), fresh_writer, [])"
    using DELETE_by_family [where w = fresh_writer and r = "(sample_request\<lparr>Method := ''DELETE'', Path := ''/acct/images/i1''\<rparr>)" and c = sample_api
        and X = sample_extern and s = "[]"]
    by (simp add: refuses_def fresh_writer_def sample_request_def sample_api_def failing_api_def
        HasSuffix_drop TrimPrefix_def HasPrefix_take)
  moreover
  have "handlePackages sample_extern sample_api fresh_writer (sample_request\<lparr>Method := ''DELETE'', Path := ''/acct/packages/p1''\<rparr>) [] =
     Return (Some (Renderable ErrNotAllowed), fresh_writer, [])"
    using DELETE_by_family [where w = fresh_writer and r = "(sample_request\<lparr>Method := ''DELETE'', Path := ''/acct/packages/p1''\<rparr>)" and c = sample_api
        and X = sample_extern and s = "[]"]
    by (simp add: refuses_def fresh_writer_def sample_request_def sample_api_def failing_api_def
        HasSuffix_drop TrimPrefix_def HasPrefix_take)
  moreover
  have "handleNetworks sample_extern sample_api fresh_writer (sample_request\<lparr>Method := ''DELETE'', Path := ''/acct/networks/n1''\<rparr>) [] =
     Return (Some (Renderable ErrNotAllowed), fresh_writer, [])"
    using DELETE_by_family [where w = fresh_writer and r = "(sample_request\<lparr>Method := ''DELETE'', Path := ''/acct/networks/n1''\<rparr>)" and c = sample_api
        and X = sample_extern and s = "[]"]
    by (simp add: refuses_def fresh_writer_def sample_request_def sample_api_def failing_api_def
        HasSuffix_drop TrimPrefix_def HasPrefix_take)
  ultimately show ?thesis by (intro conjI)
qed

text \<open>
  The claim C6 as written is about every resource family and every single-resource
  path. A DELETE for one image is refused with the not-allowed error and no store
  operation is called. So is a DELETE for the key with the identifier \<open>deploy-keys\<close>,
  whose path ends like the collection path.
\<close>

theorem DELETE_image_counterexample:
  "handleImages sample_extern sample_api fresh_writer
       (sample_request\<lparr>Method := ''DELETE'', Path := ''/acct/images/img1''\<rparr>) [] =
     Return (Some (Renderable ErrNotAllowed), fresh_writer, []) \<and>
   Code ErrNotAllowed = 405 \<and>
   \<not> HasSuffix ''/acct/images/img1'' ''images'' \<and>
   handleKeys sample_extern sample_api fresh_writer
       (sample_request\<lparr>Method := ''DELETE'', Path := ''/acct/keys/deploy-keys''\<rparr>) [] =
     Return (Some (Renderable ErrNotAllowed), fresh_writer, []) \<and>
   TrimPrefix ''/acct/keys/deploy-keys'' (''/'' @ UserAccount sample_api @ ''/keys/'') = ''deploy-keys''"
  by (simp add: handleImages_def handleKeys_def sample_request_def sample_api_def fails_def
      ErrNotAllowed_def HasSuffix_drop TrimPrefix_def HasPrefix_take)

subsection \<open>POST to a collection path\<close>

lemma key_opts_decoded:
  "key_opts X body =
     (case decoded_or_default (Unmarshal_CreateKeyOpts X) \<lparr>Name = '''', Key = ''''\<rparr> body of
        Inl err \<Rightarrow> Inl err | Inr opts \<Rightarrow> Inr (Name opts, Key opts))"
  by (simp add: key_opts_def decoded_or_default_def)

lemma fwrule_opts_decoded:
  "fwrule_opts X body =
     (case decoded_or_default (Unmarshal_CreateFwRuleOpts X) \<lparr>Enabled = False, Rule = ''''\<rparr> body of
        Inl err \<Rightarrow> Inl err | Inr opts \<Rightarrow> Inr (Rule opts, Enabled opts))"
  by (simp add: fwrule_opts_def decoded_or_default_def)

lemma keys_POST:
  assumes "status w = None" "Method r = ''POST''" "HasSuffix (Path r) ''keys''"
    and "ReadAll_Body r = Inr body"
    and "decoded_or_default (Unmarshal_CreateKeyOpts X) \<lparr>Name = '''', Key = ''''\<rparr> body = Inr opts"
    and "CreateKey c (Name opts) (Key opts) s = (Inr k, s')"
    and "struct_members X (non_nil_ptr (zero_Key X) k) = Inr ms"
  shows "responds (handleKeys X c w r s) w StatusCreated (''{'' @ ms @ ''}'') s'"
  using assms by (simp add: handleKeys_def key_opts_decoded call_def sends_struct)

lemma fwrules_POST:
  assumes "status w = None" "Method r = ''POST''" "HasSuffix (Path r) ''fwrules''"
    and "ReadAll_Body r = Inr body"
    and "decoded_or_default (Unmarshal_CreateFwRuleOpts X) \<lparr>Enabled = False, Rule = ''''\<rparr> body = Inr opts"
    and "CreateFirewallRule c (Rule opts) (Enabled opts) s = (Inr k, s')"
    and "struct_members X (non_nil_ptr (zero_FirewallRule X) k) = Inr ms"
  shows "responds (handleFwRules X c w r s) w StatusCreated (''{'' @ ms @ ''}'') s'"
  using assms by (simp add: handleFwRules_def fwrule_opts_decoded call_def sends_struct)

lemma machines_POST:
  assumes "status w = None" "Method r = ''POST''" "HasSuffix (Path r) ''machines''"
    and "ReadAll_Body r = Inr body"
    and "machine_opts X body = Return (Inr vars)"
    and "CreateMachine c (m_name vars) (m_pkg vars) (m_image vars) (m_networks vars)
           (m_metadata vars) (m_tags vars) s = (Inr k, s')"
    and "struct_members X (non_nil_ptr (zero_Machine X) k) = Inr ms"
  shows "responds (handleMachines X c w r s) w StatusCreated (''{'' @ ms @ ''}'') s'"
  using assms by (simp add: handleMachines_def and_then_def call_def sends_struct)

lemma read_only_POST:
  assumes "Method r = ''POST''"
  shows "HasSuffix (Path r) ''images'' \<Longrightarrow> refuses (handleImages X c w r s) w ErrNotFound s"
    and "refuses (handlePackages X c w r s) w ErrNotAllowed s"
    and "refuses (handleNetworks X c w r s) w ErrNotAllowed s"
  using assms
  by (simp_all add: handleImages_def handlePackages_def handleNetworks_def refuses_def fails_def)

text \<open>
  C5, as amended. On a writer whose header is not yet written, for a POST whose body has
  been read: on the collection path of the keys and of the firewall rules the body is
  decoded as the options structure of the family, an empty body meaning all defaults,
  the store's create operation is called with the decoded fields and, when it succeeds,
  the handler responds 201 with the encoding of the resource created (of the zero-value
  struct when the store returns the nil pointer). On the collection path of the machines
  the same holds with the fields taken from the body by \<open>machine_opts\<close>, when that
  returns. On the collection path of the images the handler returns the not-found error
  (404); for packages and networks it returns the not-allowed error (405); these three
  call no store operation.
\<close>

theorem POST_collection_by_family:
  "status w = None \<and> Method r = ''POST'' \<and> ReadAll_Body r = Inr body \<longrightarrow>
     (HasSuffix (Path r) ''keys'' \<and>
      decoded_or_default (Unmarshal_CreateKeyOpts X) \<lparr>Name = '''', Key = ''''\<rparr> body = Inr kopts \<and>
      CreateKey c (Name kopts) (Key kopts) s = (Inr k, s') \<and>
      struct_members X (non_nil_ptr (zero_Key X) k) = Inr ms \<longrightarrow>
        responds (handleKeys X c w r s) w StatusCreated (''{'' @ ms @ ''}'') s') \<and>
     (HasSuffix (Path r) ''fwrules'' \<and>
      decoded_or_default (Unmarshal_CreateFwRuleOpts X) \<lparr>Enabled = False, Rule = ''''\<rparr> body = Inr fopts \<and>
      CreateFirewallRule c (Rule fopts) (Enabled fopts) s = (Inr k, s') \<and>
      struct_members X (non_nil_ptr (zero_FirewallRule X) k) = Inr ms \<longrightarrow>
        responds (handleFwRules X c w r s) w StatusCreated (''{'' @ ms @ ''}'') s') \<and>
     (HasSuffix (Path r) ''machines'' \<and>
      machine_opts X body = Return (Inr vars) \<and>
      CreateMachine c (m_name vars) (m_pkg vars) (m_image vars) (m_networks vars)
        (m_metadata vars) (m_tags vars) s = (Inr k, s') \<and>
      struct_members X (non_nil_ptr (zero_Machine X) k) = Inr ms \<longrightarrow>
        responds (handleMachines X c w r s) w StatusCreated (''{'' @ ms @ ''}'') s') \<and>
     (HasSuffix (Path r) ''images'' \<longrightarrow> refuses (handleImages X c w r s) w ErrNotFound s) \<and>
     refuses (handlePackages X c w r s) w ErrNotAllowed s \<and>
     refuses (handleNetworks X c w r s) w ErrNotAllowed s \<and>
     Code ErrNotFound = StatusNotFound \<and> Code ErrNotAllowed = StatusMethodNotAllowed"
  by (intro impI conjI; (elim conjE)?;
      ((rule keys_POST fwrules_POST machines_POST read_only_POST; assumption)
       | simp add: ErrNotAllowed_def ErrNotFound_def))

theorem POST_collection_by_family_witness:
  "handleKeys sample_extern sample_api fresh_writer (sample_request\<lparr>Method := ''POST'', ReadAll_Body := Inr ''{...}''\<rparr>) [] =
     Return (None, \<lparr>header = [''Content-Length'' \<mapsto> ''16''], status = Some 201, written = ''{k1 ssh-rsa AAA}''\<rparr>,
       [''CreateKey k1 ssh-rsa AAA'']) \<and>
   handleFwRules sample_extern sample_api fresh_writer (sample_request\<lparr>Method := ''POST'', Path := ''/acct/fwrules''\<rparr>) [] =
     Return (None, \<lparr>header = [''Content-Length'' \<mapsto> ''2''], status = Some 201, written = ''{}''\<rparr>,
       [''CreateFirewallRule '']) \<and>
   handleMachines sample_extern sample_api fresh_writer (sample_request\<lparr>Method := ''POST'', Path := ''/acct/machines'', ReadAll_Body := Inr ''{...}''\<rparr>) [] =
     Return (None, \<lparr>header = [''Content-Length'' \<mapsto> ''4''], status = Some 201, written = ''{  }''\<rparr>,
       [''CreateMachine    networks=net1,net2 metadata.role=db tag.env=prod'']) \<and>
   handleImages sample_extern sample_api fresh_writer (sample_request\<lparr>Method := ''POST'', Path := ''/acct/images''\<rparr>) [] =
     Return (Some (Renderable ErrNotFound), fresh_writer, []) \<and>
   handlePackages sample_extern sample_api fresh_writer (sample_request\<lparr>Method := ''POST'', Path := ''/acct/packages''\<rparr>) [] =
     Return (Some (Renderable ErrNotAllowed), fresh_writer, []) \<and>
   handleNetworks sample_extern sample_api fresh_writer (sample_request\<lparr>Method := ''POST'', Path := ''/acct/networks''\<rparr>) [] =
     Return (Some (Renderable ErrNotAllowed), fresh_writer, [])"
proof -
  have "handleKeys sample_extern sample_api fresh_writer (sample_request\<lparr>Method := ''POST'', ReadAll_Body := Inr ''{...}''\<rparr>) [] =
     Return (None, \<lparr>header = [''Content-Length'' \<mapsto> ''16''], status = Some 201, written = ''{k1 ssh-rsa AAA}''\<rparr>,
       [''CreateKey k1 ssh-rsa AAA''])"
    using POST_collection_by_family [where w = fresh_writer and r = "(sample_request\<lparr>Method := ''POST'', ReadAll_Body := Inr ''{...}''\<rparr>)" and c = sample_api
        and X = sample_extern and s = "[]"
        and body = "''{...}''"
        and kopts = "\<lparr>Name = ''k1'', Key = ''ssh-rsa AAA''\<rparr>"
        and k = "Some ''k1 ssh-rsa AAA''"
        and s' = "[''CreateKey k1 ssh-rsa AAA'']"
        and ms = "''k1 ssh-rsa AAA''"]
    by (simp add: responds_def refuses_def fresh_writer_def sample_request_def sample_api_def
        failing_api_def sample_extern_def HasSuffix_drop TrimPrefix_def HasPrefix_take Itoa_def
        digits.simps
        decoded_or_default_def non_nil_ptr_def non_nil_slice_def machine_opts_def
        machine_field_def no_vars_def as_string_def as_array_def and_then_def)
  moreover
  have "handleFwRules sample_extern sample_api fresh_writer (sample_request\<lparr>Method := ''POST'', Path := ''/acct/fwrules''\<rparr>) [] =
     Return (None, \<lparr>header = [''Content-Length'' \<mapsto> ''2''], status = Some 201, written = ''{}''\<rparr>,
       [''CreateFirewallRule ''])"
    using POST_collection_by_family [where w = fresh_writer and r = "(sample_request\<lparr>Method := ''POST'', Path := ''/acct/fwrules''\<rparr>)" and c = sample_api
        and X = sample_extern and s = "[]"
        and body = "''''"
        and fopts = "\<lparr>Enabled = False, Rule = ''''\<rparr>"
        and k = "Some ''''"
        and s' = "[''CreateFirewallRule '']"
        and ms = "''''"]
    by (simp add: responds_def refuses_def fresh_writer_def sample_request_def sample_api_def
        failing_api_def sample_extern_def HasSuffix_drop TrimPrefix_def HasPrefix_take Itoa_def
        digits.simps
        decoded_or_default_def non_nil_ptr_def non_nil_slice_def machine_opts_def
        machine_field_def no_vars_def as_string_def as_array_def and_then_def)
  moreover
  have "handleMachines sample_extern sample_api fresh_writer (sample_request\<lparr>Method := ''POST'', Path := ''/acct/machines'', ReadAll_Body := Inr ''{...}''\<rparr>) [] =
     Return (None, \<lparr>header = [''Content-Length'' \<mapsto> ''4''], status = Some 201, written = ''{  }''\<rparr>,
       [''CreateMachine    networks=net1,net2 metadata.role=db tag.env=prod''])"
    using POST_collection_by_family [where w = fresh_writer and r = "(sample_request\<lparr>Method := ''POST'', Path := ''/acct/machines'', ReadAll_Body := Inr ''{...}''\<rparr>)" and c = sample_api
        and X = sample_extern and s = "[]"
        and body = "''{...}''"
        and vars = "\<lparr>m_name = '''', m_pkg = '''', m_image = '''', m_networks = Some [''net1'', ''net2''],
          m_metadata = [''role'' \<mapsto> ''db''], m_tags = [''env'' \<mapsto> ''prod'']\<rparr>"
        and k = "Some ''  ''"
        and s' = "[''CreateMachine    networks=net1,net2 metadata.role=db tag.env=prod'']"
        and ms = "''  ''"]
    by (simp add: responds_def refuses_def fresh_writer_def sample_request_def sample_api_def
        failing_api_def sample_extern_def HasSuffix_drop TrimPrefix_def HasPrefix_take Itoa_def
        digits.simps
        decoded_or_default_def non_nil_ptr_def non_nil_slice_def machine_opts_def
        machine_field_def no_vars_def as_string_def as_array_def and_then_def)
  moreover
  have "handleImages sample_extern sample_api fresh_writer (sample_request\<lparr>Method := ''POST'', Path := ''/acct/images''\<rparr>) [] =
     Return (Some (Renderable ErrNotFound), fresh_writer, [])"
    using POST_collection_by_family [where w = fresh_writer and r = "(sample_request\<lparr>Method := ''POST'', Path := ''/acct/images''\<rparr>)" and c = sample_api
        and X = sample_extern and s = "[]"
        and body = "''''"]
    by (simp add: responds_def refuses_def fresh_writer_def sample_request_def sample_api_def
        failing_api_def sample_extern_def HasSuffix_drop TrimPrefix_def HasPrefix_take Itoa_def
        digits.simps
        decoded_or_default_def non_nil_ptr_def non_nil_slice_def machine_opts_def
        machine_field_def no_vars_def as_string_def as_array_def and_then_def)
  moreover
  have "handlePackages sample_extern sample_api fresh_writer (sample_request\<lparr>Method := ''POST'', Path := ''/acct/packages''\<rparr>) [] =
     Return (Some (Renderable ErrNotAllowed), fresh_writer, [])"
    using POST_collection_by_family [where w = fresh_writer and r = "(sample_request\<lparr>Method := ''POST'', Path := ''/acct/packages''\<rparr>)" and c = sample_api
        and X = sample_extern and s = "[]"
        and body = "''''"]
    by (simp add: responds_def refuses_def fresh_writer_def sample_request_def sample_api_def
        failing_api_def sample_extern_def HasSuffix_drop TrimPrefix_def HasPrefix_take Itoa_def
        digits.simps
        decoded_or_default_def non_nil_ptr_def non_nil_slice_def machine_opts_def
        machine_field_def no_vars_def as_string_def as_array_def and_then_def)
  moreover
  have "handleNetworks sample_extern sample_api fresh_writer (sample_request\<lparr>Method := ''POST'', Path := ''/acct/networks''\<rparr>) [] =
     Return (Some (Renderable ErrNotAllowed), fresh_writer, [])"
    using POST_collection_by_family [where w = fresh_writer and r = "(sample_request\<lparr>Method := ''POST'', Path := ''/acct/networks''\<rparr>)" and c = sample_api
        and X = sample_extern and s = "[]"
        and body = "''''"]
    by (simp add: responds_def refuses_def fresh_writer_def sample_request_def sample_api_def
        failing_api_def sample_extern_def HasSuffix_drop TrimPrefix_def HasPrefix_take Itoa_def
        digits.simps
        decoded_or_default_def non_nil_ptr_def non_nil_slice_def machine_opts_def
        machine_field_def no_vars_def as_string_def as_array_def and_then_def)
  ultimately show ?thesis by (intro conjI)
qed

text \<open>
  The claim C5 as written is about every resource family. A POST to the collection path
  of the packages and of the networks is refused with the not-allowed error, and one to
  the collection path of the images with the not-found error; no store operation is
  called.
\<close>

theorem POST_collection_counterexample:
  "handlePackages sample_extern sample_api fresh_writer
       (sample_request\<lparr>Method := ''POST'', Path := ''/acct/packages''\<rparr>) [] =
     Return (Some (Renderable ErrNotAllowed), fresh_writer, []) \<and>
   handleNetworks sample_extern sample_api fresh_writer
       (sample_request\<lparr>Method := ''POST'', Path := ''/acct/networks''\<rparr>) [] =
     Return (Some (Renderable ErrNotAllowed), fresh_writer, []) \<and>
   handleImages sample_extern sample_api fresh_writer
       (sample_request\<lparr>Method := ''POST'', Path := ''/acct/images''\<rparr>) [] =
     Return (Some (Renderable ErrNotFound), fresh_writer, []) \<and>
   Code ErrNotAllowed = 405 \<and> Code ErrNotFound = 404"
  by (simp add: handlePackages_def handleNetworks_def handleImages_def sample_request_def fails_def
      ErrNotAllowed_def ErrNotFound_def HasSuffix_drop)

subsection \<open>The fields of a machine-create body\<close>

lemma append_strings_eq:
  "append_strings acc vs =
     (if list_all is_string vs then Return (acc @ map the_string vs) else Panic)"
proof (induction vs arbitrary: acc)
  case Nil
  then show ?case by simp
next
  case (Cons v vs)
  show ?case
    by (cases v) (simp_all add: as_string_def and_then_def is_string_def Cons.IH)
qed

lemma as_string_eq: "as_string v = (if is_string v then Return (the_string v) else Panic)"
  by (cases v) (simp_all add: as_string_def is_string_def)

lemma machine_field_panics: "(machine_field vars (k, v) = Panic) = (\<not> field_ok k v)"
  by (cases v)
    (auto simp: machine_field_def field_ok_def as_string_eq as_array_def append_strings_eq
      and_then_def is_string_array_def is_string_def Let_def)

lemma machine_fields_panics:
  "(machine_fields vars opts = Panic) = (\<exists>(k, v) \<in> set opts. \<not> field_ok k v)"
proof (induction opts arbitrary: vars)
  case Nil
  then show ?case by simp
next
  case (Cons kv opts)
  obtain k v where kv: "kv = (k, v)" by (cases kv)
  show ?case
  proof (cases "machine_field vars (k, v)")
    case Panic
    then show ?thesis using machine_field_panics [of vars k v] by (simp add: kv and_then_def)
  next
    case (Return vars')
    then have "field_ok k v" using machine_field_panics [of vars k v] by auto
    then show ?thesis using Return Cons.IH [of vars'] by (simp add: kv and_then_def)
  qed
qed

lemma prefixed_key:
  "HasPrefix k ''tag.'' \<Longrightarrow>
     (CHR ''t'' # CHR ''a'' # CHR ''g'' # CHR ''.'' # x = k) = (x = drop 4 k)"
  "HasPrefix k ''metadata.'' \<Longrightarrow>
     (CHR ''m'' # CHR ''e'' # CHR ''t'' # CHR ''a'' # CHR ''d'' # CHR ''a'' # CHR ''t'' # CHR ''a'' #
      CHR ''.'' # x = k) = (x = drop 9 k)"
  "\<not> HasPrefix k ''tag.'' \<Longrightarrow>
     (CHR ''t'' # CHR ''a'' # CHR ''g'' # CHR ''.'' # x = k) = False"
  "\<not> HasPrefix k ''metadata.'' \<Longrightarrow>
     (CHR ''m'' # CHR ''e'' # CHR ''t'' # CHR ''a'' # CHR ''d'' # CHR ''a'' # CHR ''t'' # CHR ''a'' #
      CHR ''.'' # x = k) = False"
  by (auto simp: HasPrefix_def prefix_def)

lemma machine_field_ok:
  assumes "field_ok k v"
  shows "machine_field vars (k, v) = Return (extracted_onto vars [(k, v)])"
proof (cases "v = JNil")
  case True
  then show ?thesis
    by (auto simp: machine_field_def extracted_onto_def fun_eq_iff intro!: machine_vars.equality)
next
  case False
  consider (name) "k = ''name''" | (pkg) "k = ''package''" | (image) "k = ''image''"
    | (networks) "k = ''networks''"
    | (tag) "k \<noteq> ''name''" "k \<noteq> ''package''" "k \<noteq> ''image''" "k \<noteq> ''networks''" "HasPrefix k ''tag.''"
    | (metadata) "k \<noteq> ''name''" "k \<noteq> ''package''" "k \<noteq> ''image''" "k \<noteq> ''networks''"
        "\<not> HasPrefix k ''tag.''" "HasPrefix k ''metadata.''"
    | (other) "k \<noteq> ''name''" "k \<noteq> ''package''" "k \<noteq> ''image''" "k \<noteq> ''networks''"
        "\<not> HasPrefix k ''tag.''" "\<not> HasPrefix k ''metadata.''"
    by blast
  then show ?thesis
  proof cases
    case name
    then show ?thesis using assms False
      by (cases v) (simp_all add: machine_field_def extracted_onto_def field_ok_def is_string_def
          as_string_def and_then_def)
  next
    case pkg
    then show ?thesis using assms False
      by (cases v) (simp_all add: machine_field_def extracted_onto_def field_ok_def is_string_def
          as_string_def and_then_def)
  next
    case image
    then show ?thesis using assms False
      by (cases v) (simp_all add: machine_field_def extracted_onto_def field_ok_def is_string_def
          as_string_def and_then_def)
  next
    case networks
    then show ?thesis using assms False
      by (cases v) (simp_all add: machine_field_def extracted_onto_def field_ok_def
          is_string_array_def as_array_def append_strings_eq and_then_def)
  next
    case tag
    have np: "\<not> HasPrefix k ''metadata.''"
      using tag(5) by (auto simp: HasPrefix_def prefix_def)
    show ?thesis using assms False tag np
      by (cases v)
        (auto simp: machine_field_def extracted_onto_def field_ok_def is_string_def as_string_def
          and_then_def fun_eq_iff prefixed_key intro!: machine_vars.equality)
  next
    case metadata
    show ?thesis using assms False metadata
      by (cases v)
        (auto simp: machine_field_def extracted_onto_def field_ok_def is_string_def as_string_def
          and_then_def fun_eq_iff prefixed_key intro!: machine_vars.equality)
  next
    case other
    show ?thesis using assms False other
      by (cases v)
        (auto simp: machine_field_def extracted_onto_def field_ok_def fun_eq_iff prefixed_key
          intro!: machine_vars.equality)
  qed
qed

lemma extracted_onto_Nil: "extracted_onto vars [] = vars"
  by (simp add: extracted_onto_def)

lemma extracted_onto_Cons:
  assumes "k \<notin> fst ` set opts"
  shows "extracted_onto (extracted_onto vars [(k, v)]) opts = extracted_onto vars ((k, v) # opts)"
proof -
  have none: "map_of opts k = None"
    using assms by (simp add: map_of_eq_None_iff)
  have look: "\<And>x. map_of ((k, v) # opts) x = (if x = k then Some v else map_of opts x)"
    by simp
  have one: "\<And>x. map_of [(k, v)] x = (if x = k then Some v else None)"
    by simp
  show ?thesis
    unfolding extracted_onto_def look one
    by (rule machine_vars.equality) (auto simp: none fun_eq_iff split: option.splits json_value.splits)
qed

lemma machine_fields_ok:
  "distinct (map fst opts) \<Longrightarrow> \<forall>(k, v) \<in> set opts. field_ok k v \<Longrightarrow>
     machine_fields vars opts = Return (extracted_onto vars opts)"
proof (induction opts arbitrary: vars)
  case Nil
  then show ?case by (simp add: extracted_onto_Nil)
next
  case (Cons kv opts)
  obtain k v where kv: "kv = (k, v)" by (cases kv)
  have ok: "field_ok k v" and fresh: "k \<notin> fst ` set opts"
    using Cons.prems by (auto simp: kv)
  have rest: "machine_fields (extracted_onto vars [(k, v)]) opts =
      Return (extracted_onto (extracted_onto vars [(k, v)]) opts)"
    using Cons.prems by (intro Cons.IH) auto
  show ?case
    by (simp add: kv machine_field_ok [OF ok] and_then_def rest extracted_onto_Cons [OF fresh]
        del: extracted_onto_Cons)
qed

lemma extracted_onto_no_vars:
  "extracted_onto no_vars opts =
     \<lparr>m_name = string_field opts ''name'', m_pkg = string_field opts ''package'',
      m_image = string_field opts ''image'', m_networks = networks_field opts,
      m_metadata = prefixed_fields ''metadata.'' opts, m_tags = prefixed_fields ''tag.'' opts\<rparr>"
  by (simp add: extracted_onto_def no_vars_def string_field_def networks_field_def
      prefixed_fields_def cong: option.case_cong json_value.case_cong)

text \<open>
  C4. When the keys of the decoded body are distinct, as the keys of a map are, and every
  value is nil or of the type expected for its key, the loop over the body returns with:
  the strings bound to \<open>name\<close>, \<open>package\<close> and \<open>image\<close>; the string array bound to
  \<open>networks\<close>; the strings of the keys with the prefix \<open>tag.\<close> as the tags and of the
  keys with the prefix \<open>metadata.\<close> as the metadata, each under its key with the prefix
  stripped. A key with the nil value leaves its variable as it was, and every other key
  is ignored. For a POST to the machines collection path with a non-empty body that
  decodes, these are the arguments of the store's create operation, and when that
  succeeds the handler responds 201 with the encoding of the machine created.
\<close>

theorem create_machine_extraction:
  "distinct (map fst opts) \<and> (\<forall>(k, v) \<in> set opts. field_ok k v) \<longrightarrow>
     machine_fields no_vars opts =
       Return \<lparr>m_name = string_field opts ''name'', m_pkg = string_field opts ''package'',
         m_image = string_field opts ''image'', m_networks = networks_field opts,
         m_metadata = prefixed_fields ''metadata.'' opts, m_tags = prefixed_fields ''tag.'' opts\<rparr> \<and>
     (status w = None \<and> Method r = ''POST'' \<and> HasSuffix (Path r) ''machines'' \<and>
      ReadAll_Body r = Inr body \<and> body \<noteq> '''' \<and> Unmarshal_map X body = Inr opts \<and>
      CreateMachine c (string_field opts ''name'') (string_field opts ''package'')
        (string_field opts ''image'') (networks_field opts)
        (prefixed_fields ''metadata.'' opts) (prefixed_fields ''tag.'' opts) s = (Inr k, s') \<and>
      struct_members X (non_nil_ptr (zero_Machine X) k) = Inr ms \<longrightarrow>
        responds (handleMachines X c w r s) w StatusCreated (''{'' @ ms @ ''}'') s')"
proof (intro impI conjI)
  assume a: "distinct (map fst opts) \<and> (\<forall>(k, v) \<in> set opts. field_ok k v)"
  then show fields: "machine_fields no_vars opts =
       Return \<lparr>m_name = string_field opts ''name'', m_pkg = string_field opts ''package'',
         m_image = string_field opts ''image'', m_networks = networks_field opts,
         m_metadata = prefixed_fields ''metadata.'' opts, m_tags = prefixed_fields ''tag.'' opts\<rparr>"
    using machine_fields_ok [of opts no_vars] by (simp add: extracted_onto_no_vars)
  assume b: "status w = None \<and> Method r = ''POST'' \<and> HasSuffix (Path r) ''machines'' \<and>
      ReadAll_Body r = Inr body \<and> body \<noteq> '''' \<and> Unmarshal_map X body = Inr opts \<and>
      CreateMachine c (string_field opts ''name'') (string_field opts ''package'')
        (string_field opts ''image'') (networks_field opts)
        (prefixed_fields ''metadata.'' opts) (prefixed_fields ''tag.'' opts) s = (Inr k, s') \<and>
      struct_members X (non_nil_ptr (zero_Machine X) k) = Inr ms"
  have "machine_opts X body =
      Return (Inr \<lparr>m_name = string_field opts ''name'', m_pkg = string_field opts ''package'',
         m_image = string_field opts ''image'', m_networks = networks_field opts,
         m_metadata = prefixed_fields ''metadata.'' opts, m_tags = prefixed_fields ''tag.'' opts\<rparr>)"
    using b by (simp add: machine_opts_def fields and_then_def)
  then show "responds (handleMachines X c w r s) w StatusCreated (''{'' @ ms @ ''}'') s'"
    using b
      machines_POST [where w = w and r = r and X = X and c = c and s = s and body = body
        and k = k and s' = s' and ms = ms
        and vars = "\<lparr>m_name = string_field opts ''name'', m_pkg = string_field opts ''package'',
         m_image = string_field opts ''image'', m_networks = networks_field opts,
         m_metadata = prefixed_fields ''metadata.'' opts, m_tags = prefixed_fields ''tag.'' opts\<rparr>"]
    by simp
qed

theorem create_machine_extraction_witness:
  "handleMachines sample_extern sample_api fresh_writer
       (sample_request\<lparr>Method := ''POST'', Path := ''/acct/machines'', ReadAll_Body := Inr ''{...}''\<rparr>) [] =
     Return (None, \<lparr>header = [''Content-Length'' \<mapsto> ''4''], status = Some 201, written = ''{  }''\<rparr>,
       [''CreateMachine    networks=net1,net2 metadata.role=db tag.env=prod''])"
  using
    create_machine_extraction [where opts =
      "[(''name'', JNil), (''tag.env'', JString ''prod''), (''metadata.role'', JString ''db''),
        (''networks'', JArray [JString ''net1'', JString ''net2'']), (''color'', JNumber 3)]"
      and w = fresh_writer and X = sample_extern and c = sample_api and s = "[]"
      and r = "sample_request\<lparr>Method := ''POST'', Path := ''/acct/machines'', ReadAll_Body := Inr ''{...}''\<rparr>"
      and body = "''{...}''" and k = "Some ''  ''" and ms = "''  ''"
      and s' = "[''CreateMachine    networks=net1,net2 metadata.role=db tag.env=prod'']"]
  by (simp add: field_ok_def is_string_def is_string_array_def HasPrefix_take HasSuffix_drop
      string_field_def networks_field_def prefixed_fields_def
      responds_def fresh_writer_def sample_request_def sample_api_def sample_extern_def
      non_nil_ptr_def non_nil_slice_def Itoa_def digits.simps del: machine_fields.simps)

subsection \<open>Panics of the machine-create branch\<close>

lemma machine_fields_cases:
  "machine_fields vars opts = Panic \<or> (\<exists>vars'. machine_fields vars opts = Return vars')"
  by (cases "machine_fields vars opts") auto

lemma call_returns: "(\<And>x s'. k x s' \<noteq> Panic) \<Longrightarrow> call op w s k \<noteq> Panic"
  by (auto simp: call_def fails_def split: prod.splits sum.splits)

lemma sends_returns: "sends ew s \<noteq> Panic"
  by (simp add: sends_def)

lemma machines_no_slash: "HasSuffix p ''machines'' \<Longrightarrow> \<not> HasSuffix p ''/''"
  by (auto simp: HasSuffix_def suffix_def)

lemma create_branch_panics:
  assumes "Method r = ''POST''" "HasSuffix (Path r) ''machines''" "ReadAll_Body r = Inr body"
    and "body \<noteq> ''''" "Unmarshal_map X body = Inr opts"
  shows "(handleMachines X c w r s = Panic) = (\<exists>(k, v) \<in> set opts. \<not> field_ok k v)"
proof (cases "machine_fields no_vars opts")
  case Panic
  then have "handleMachines X c w r s = Panic"
    using assms by (simp add: handleMachines_def machine_opts_def and_then_def)
  then show ?thesis using Panic machine_fields_panics [of no_vars opts] by simp
next
  case (Return vars)
  then have "handleMachines X c w r s =
      call (CreateMachine c (m_name vars) (m_pkg vars) (m_image vars)
              (m_networks vars) (m_metadata vars) (m_tags vars)) w s
        (\<lambda>machine s'.
          sends (sendJSON X StatusCreated (Ptr (Some (non_nil_ptr (zero_Machine X) machine))) w) s')"
    using assms by (simp add: handleMachines_def machine_opts_def and_then_def)
  then have "handleMachines X c w r s \<noteq> Panic"
    by (simp add: call_returns sends_returns)
  then show ?thesis using Return machine_fields_panics [of no_vars opts] by simp
qed

lemma ServeHTTP_panics:
  "\<not> HasSuffix (Path r) ''/'' \<Longrightarrow>
     (cloudapiHandler_ServeHTTP (handler c method) w r s = Panic) = (method c w r s = Panic)"
  by (cases "method c w r s")
    (auto simp: cloudapiHandler_ServeHTTP_def handler_def and_then_def split: option.splits)

text \<open>
  C10. The loop over a decoded machine-create body panics exactly when some entry is not
  acceptable: a value that is neither nil nor of the type expected for its key, that is
  a non-string under \<open>name\<close>, \<open>package\<close>, \<open>image\<close> or a key with the prefix \<open>tag.\<close> or
  \<open>metadata.\<close>, or something other than an array of strings under \<open>networks\<close>. For a
  POST to the machines collection path with a non-empty body that decodes, the handler
  method and the dispatch panic in exactly these cases, so no response is produced, the
  500 response neither; in every other case they return.
\<close>

theorem create_machine_panics:
  "(machine_fields vars opts = Panic) = (\<exists>(k, v) \<in> set opts. \<not> field_ok k v) \<and>
   (Method r = ''POST'' \<and> HasSuffix (Path r) ''machines'' \<and> ReadAll_Body r = Inr body \<and>
    body \<noteq> '''' \<and> Unmarshal_map X body = Inr opts \<longrightarrow>
      (handleMachines X c w r s = Panic) = (\<exists>(k, v) \<in> set opts. \<not> field_ok k v) \<and>
      (cloudapiHandler_ServeHTTP (handler c (handleMachines X)) w r s = Panic) =
        (\<exists>(k, v) \<in> set opts. \<not> field_ok k v))"
proof (intro conjI impI)
  show "(machine_fields vars opts = Panic) = (\<exists>(k, v) \<in> set opts. \<not> field_ok k v)"
    by (rule machine_fields_panics)
  assume a: "Method r = ''POST'' \<and> HasSuffix (Path r) ''machines'' \<and> ReadAll_Body r = Inr body \<and>
    body \<noteq> '''' \<and> Unmarshal_map X body = Inr opts"
  then show m: "(handleMachines X c w r s = Panic) = (\<exists>(k, v) \<in> set opts. \<not> field_ok k v)"
    by (intro create_branch_panics [where body = body]) simp_all
  have "\<not> HasSuffix (Path r) ''/''"
    using a by (simp add: machines_no_slash)
  then show "(cloudapiHandler_ServeHTTP (handler c (handleMachines X)) w r s = Panic) =
        (\<exists>(k, v) \<in> set opts. \<not> field_ok k v)"
    using m by (simp add: ServeHTTP_panics)
qed

theorem create_machine_panics_witness:
  "cloudapiHandler_ServeHTTP (handler sample_api (handleMachines numeric_name_extern)) fresh_writer
       (sample_request\<lparr>Method := ''POST'', Path := ''/acct/machines'', ReadAll_Body := Inr ''{...}''\<rparr>) [] =
     Panic \<and>
   cloudapiHandler_ServeHTTP (handler sample_api (handleMachines sample_extern)) fresh_writer
       (sample_request\<lparr>Method := ''POST'', Path := ''/acct/machines'', ReadAll_Body := Inr ''{...}''\<rparr>) [] \<noteq>
     Panic"
  using
    create_machine_panics [where opts = "[(''name'', JNumber 5)]" and X = numeric_name_extern
      and r = "sample_request\<lparr>Method := ''POST'', Path := ''/acct/machines'', ReadAll_Body := Inr ''{...}''\<rparr>"
      and body = "''{...}''" and c = sample_api and w = fresh_writer and s = "[]"]
    create_machine_panics [where opts =
      "[(''name'', JNil), (''tag.env'', JString ''prod''), (''metadata.role'', JString ''db''),
        (''networks'', JArray [JString ''net1'', JString ''net2'']), (''color'', JNumber 3)]"
      and X = sample_extern
      and r = "sample_request\<lparr>Method := ''POST'', Path := ''/acct/machines'', ReadAll_Body := Inr ''{...}''\<rparr>"
      and body = "''{...}''" and c = sample_api and w = fresh_writer and s = "[]"]
  by (simp add: field_ok_def is_string_def is_string_array_def HasPrefix_take HasSuffix_drop
      sample_request_def sample_extern_def numeric_name_extern_def del: machine_fields.simps)

end
